theory Spec2Isabelle
  imports Main
begin

section \<open>Go library functions used by the report resource\<close>

text \<open>
  The resource in \<^verbatim>\<open>internal/resources/grafana/resource_report.go\<close> calls
  \<^verbatim>\<open>strconv.Atoi\<close>, \<^verbatim>\<open>fmt.Sprintf\<close>, \<^verbatim>\<open>strings.Split\<close>, \<^verbatim>\<open>strings.Join\<close> and
  \<^verbatim>\<open>time.Parse\<close>. They belong to the Go standard library; this section gives the
  behaviour the resource relies on. Go's \<^verbatim>\<open>int\<close> is 32 or 64 bits wide, depending on
  the platform the provider is built for.
\<close>

datatype intSize = Bits32 | Bits64

fun bits :: "intSize \<Rightarrow> nat" where
  "bits Bits32 = 32"
| "bits Bits64 = 64"

definition isDigit :: "char \<Rightarrow> bool" where
  "isDigit ch = (48 \<le> (of_char ch :: nat) \<and> (of_char ch :: nat) \<le> 57)"

definition digitVal :: "char \<Rightarrow> nat" where
  "digitVal ch = of_char ch - 48"

definition digitChar :: "nat \<Rightarrow> char" where
  "digitChar k = char_of (48 + k)"

text \<open>The loop \<^verbatim>\<open>n = n*10 + int(ch)\<close> of \<^verbatim>\<open>strconv\<close> over the digits of a token.\<close>

definition digitsVal :: "string \<Rightarrow> nat" where
  "digitsVal s = foldl (\<lambda>n ch. n * 10 + digitVal ch) 0 s"

fun stripSign :: "string \<Rightarrow> string" where
  "stripSign [] = []"
| "stripSign (c # cs) = (if c = CHR ''-'' \<or> c = CHR ''+'' then cs else c # cs)"

definition signedValue :: "string \<Rightarrow> int" where
  "signedValue s =
     (if take 1 s = ''-'' then - int (digitsVal (stripSign s)) else int (digitsVal (stripSign s)))"

definition inIntRange :: "intSize \<Rightarrow> int \<Rightarrow> bool" where
  "inIntRange b n = (- (2 ^ (bits b - 1)) \<le> n \<and> n < 2 ^ (bits b - 1))"

text \<open>
  \<^verbatim>\<open>strconv.Atoi\<close>: an optional sign, then one or more decimal digits; the value has
  to fit \<^verbatim>\<open>int\<close>. \<open>None\<close> stands for a returned error (syntax or range).
\<close>

definition Atoi :: "intSize \<Rightarrow> string \<Rightarrow> int option" where
  "Atoi b s =
     (if stripSign s = [] \<or> \<not> list_all isDigit (stripSign s) then None
      else if inIntRange b (signedValue s) then Some (signedValue s)
      else None)"

text \<open>\<^verbatim>\<open>%d\<close> of \<^verbatim>\<open>fmt.Sprintf\<close> and \<^verbatim>\<open>strconv.FormatInt(_, 10)\<close>.\<close>

fun formatNat :: "nat \<Rightarrow> string" where
  "formatNat n =
     (if n < 10 then [digitChar n] else formatNat (n div 10) @ [digitChar (n mod 10)])"

declare formatNat.simps [simp del]

definition formatInt :: "int \<Rightarrow> string" where
  "formatInt i = (if i < 0 then CHR ''-'' # formatNat (nat (- i)) else formatNat (nat i))"

text \<open>
  \<^verbatim>\<open>strings.Split(s, sep)\<close> for a separator of one character: every occurrence of the
  separator ends a token, empty tokens are kept, and the empty string gives one empty token.
\<close>

fun strings_Split :: "char \<Rightarrow> string \<Rightarrow> string list" where
  "strings_Split sep [] = [[]]"
| "strings_Split sep (c # cs) =
     (if c = sep then [] # strings_Split sep cs
      else (case strings_Split sep cs of
              [] \<Rightarrow> [[c]]
            | t # ts \<Rightarrow> (c # t) # ts))"

fun strings_Join :: "string list \<Rightarrow> char \<Rightarrow> string" where
  "strings_Join [] sep = []"
| "strings_Join [t] sep = t"
| "strings_Join (t # ts) sep = t @ sep # strings_Join ts sep"

subsection \<open>Instants and RFC 3339\<close>

text \<open>
  A \<^verbatim>\<open>time.Time\<close> is modelled by its absolute instant: the nanoseconds elapsed since
  \<^verbatim>\<open>0001-01-01T00:00:00Z\<close>, which is the zero value \<^verbatim>\<open>time.Time{}\<close>. \<^verbatim>\<open>Before\<close> and
  \<^verbatim>\<open>Equal\<close> compare instants; \<^verbatim>\<open>UTC()\<close> changes the location and keeps the instant.
\<close>

type_synonym instant = int

definition zeroTime :: instant where
  "zeroTime = 0"

definition isLeap :: "int \<Rightarrow> bool" where
  "isLeap y = (y mod 4 = 0 \<and> (y mod 100 \<noteq> 0 \<or> y mod 400 = 0))"

definition daysIn :: "int \<Rightarrow> nat \<Rightarrow> nat" where
  "daysIn y m =
     (if m = 2 then (if isLeap y then 29 else 28)
      else if m = 4 \<or> m = 6 \<or> m = 9 \<or> m = 11 then 30 else 31)"

definition daysBeforeYear :: "int \<Rightarrow> int" where
  "daysBeforeYear y = 365 * (y - 1) + (y - 1) div 4 - (y - 1) div 100 + (y - 1) div 400"

definition daysBeforeMonth :: "int \<Rightarrow> nat \<Rightarrow> nat" where
  "daysBeforeMonth y m = sum_list (map (daysIn y) [1..<m])"

fun digits2 :: "string \<Rightarrow> (nat \<times> string) option" where
  "digits2 (a # b # rest) =
     (if isDigit a \<and> isDigit b then Some (digitVal a * 10 + digitVal b, rest) else None)"
| "digits2 _ = None"

text \<open>The hour of the layout is \<^verbatim>\<open>15\<close>, which takes one digit or two.\<close>

fun digits1or2 :: "string \<Rightarrow> (nat \<times> string) option" where
  "digits1or2 [] = None"
| "digits1or2 [a] = (if isDigit a then Some (digitVal a, []) else None)"
| "digits1or2 (a # b # rest) =
     (if \<not> isDigit a then None
      else if isDigit b then Some (digitVal a * 10 + digitVal b, rest)
      else Some (digitVal a, b # rest))"

fun digits4 :: "string \<Rightarrow> (nat \<times> string) option" where
  "digits4 s =
     (case digits2 s of
        None \<Rightarrow> None
      | Some (hi, rest) \<Rightarrow>
          (case digits2 rest of
             None \<Rightarrow> None
           | Some (lo, rest') \<Rightarrow> Some (hi * 100 + lo, rest')))"

fun expect :: "char \<Rightarrow> string \<Rightarrow> string option" where
  "expect ch [] = None"
| "expect ch (c # cs) = (if c = ch then Some cs else None)"

text \<open>
  A fraction of a second, which the layout does not name and the parser takes all the same:
  a period or a comma followed by a digit opens it, and the first nine digits give the
  nanoseconds. Anything else is left for the zone.
\<close>

definition fraction :: "string \<Rightarrow> nat \<times> string" where
  "fraction s =
     (case s of
        c # c' # cs \<Rightarrow>
          if (c = CHR ''.'' \<or> c = CHR '','') \<and> isDigit c' then
            (digitsVal (take 9 (takeWhile isDigit (c' # cs) @ ''000000000'')),
             dropWhile isDigit (c' # cs))
          else (0, s)
      | _ \<Rightarrow> (0, s))"

text \<open>
  The zone: \<^verbatim>\<open>Z\<close>, or a sign, two digits of hours, a colon and two digits of minutes,
  with nothing after it. Offsets of 24 hours and of 60 minutes pass the range test. The
  result is in seconds.
\<close>

definition zoneOffset :: "string \<Rightarrow> int option" where
  "zoneOffset s =
     (case s of
        [] \<Rightarrow> None
      | c # cs \<Rightarrow>
          if c = CHR ''Z'' then (if cs = [] then Some 0 else None)
          else if c = CHR ''+'' \<or> c = CHR ''-'' then
            (case digits2 cs of
               None \<Rightarrow> None
             | Some (zh, r1) \<Rightarrow>
                 (case expect CHR '':'' r1 of
                    None \<Rightarrow> None
                  | Some r2 \<Rightarrow>
                      (case digits2 r2 of
                         None \<Rightarrow> None
                       | Some (zm, r3) \<Rightarrow>
                           if r3 = [] \<and> zh \<le> 24 \<and> zm \<le> 60 then
                             Some ((if c = CHR ''-'' then - 1 else 1) * int (zh * 3600 + zm * 60))
                           else None)))
          else None)"

definition clockTime :: "string \<Rightarrow> (nat \<times> nat \<times> nat \<times> string) option" where
  "clockTime s =
     (case digits1or2 s of
        None \<Rightarrow> None
      | Some (hh, r1) \<Rightarrow>
          (case expect CHR '':'' r1 of
             None \<Rightarrow> None
           | Some r2 \<Rightarrow>
               (case digits2 r2 of
                  None \<Rightarrow> None
                | Some (mi, r3) \<Rightarrow>
                    (case expect CHR '':'' r3 of
                       None \<Rightarrow> None
                     | Some r4 \<Rightarrow>
                         (case digits2 r4 of
                            None \<Rightarrow> None
                          | Some (ss, r5) \<Rightarrow>
                              if hh < 24 \<and> mi < 60 \<and> ss < 60 then Some (hh, mi, ss, r5)
                              else None)))))"

definition calendarDate :: "string \<Rightarrow> (nat \<times> nat \<times> nat \<times> string) option" where
  "calendarDate s =
     (case digits4 s of
        None \<Rightarrow> None
      | Some (y, r1) \<Rightarrow>
          (case expect CHR ''-'' r1 of
             None \<Rightarrow> None
           | Some r2 \<Rightarrow>
               (case digits2 r2 of
                  None \<Rightarrow> None
                | Some (mo, r3) \<Rightarrow>
                    (case expect CHR ''-'' r3 of
                       None \<Rightarrow> None
                     | Some r4 \<Rightarrow>
                         (case digits2 r4 of
                            None \<Rightarrow> None
                          | Some (dd, r5) \<Rightarrow>
                              if 1 \<le> mo \<and> mo \<le> 12 \<and> 1 \<le> dd \<and> dd \<le> daysIn (int y) mo
                              then Some (y, mo, dd, r5)
                              else None)))))"

text \<open>
  \<^verbatim>\<open>time.Parse(time.RFC3339, s)\<close>, layout \<^verbatim>\<open>2006-01-02T15:04:05Z07:00\<close>: year, month,
  day, minute and second have a fixed number of digits, the hour one or two; the day is
  checked against the month and the year. \<open>None\<close> is a returned error (Go then returns
  the zero time with it). The translators below take the parser as a parameter, so what is
  proved about them for every parser does not depend on this one; it serves where a
  concrete run is evaluated.
\<close>

definition parseRFC3339 :: "string \<Rightarrow> instant option" where
  "parseRFC3339 s =
     (case calendarDate s of
        None \<Rightarrow> None
      | Some (y, mo, dd, r1) \<Rightarrow>
          (case expect CHR ''T'' r1 of
             None \<Rightarrow> None
           | Some r2 \<Rightarrow>
               (case clockTime r2 of
                  None \<Rightarrow> None
                | Some (hh, mi, ss, r3) \<Rightarrow>
                    (case fraction r3 of
                       (ns, r4) \<Rightarrow>
                         (case zoneOffset r4 of
                            None \<Rightarrow> None
                          | Some off \<Rightarrow>
                              Some (((daysBeforeYear (int y) + int (daysBeforeMonth (int y) mo)
                                        + int dd - 1) * 86400
                                     + int (hh * 3600 + mi * 60 + ss) - off) * 1000000000
                                    + int ns))))))"

text \<open>
  \<^verbatim>\<open>strfmt.DateTime.String\<close>: the instant in UTC in the layout
  \<^verbatim>\<open>2006-01-02T15:04:05.000Z07:00\<close>. The year has at least four digits, after a minus
  sign when it is negative. The date of a day number is found by the usual era arithmetic
  on the 400-year cycle, counted from 1 March of year 0.
\<close>

definition pad :: "nat \<Rightarrow> nat \<Rightarrow> string" where
  "pad w n = replicate (w - length (formatNat n)) CHR ''0'' @ formatNat n"

definition formatYear :: "int \<Rightarrow> string" where
  "formatYear y = (if y < 0 then CHR ''-'' # pad 4 (nat (- y)) else pad 4 (nat y))"

definition civilFromDays :: "int \<Rightarrow> int \<times> int \<times> int" where
  "civilFromDays days =
     (let z = days + 306;
          era = z div 146097;
          doe = z mod 146097;
          yoe = (doe - doe div 1460 + doe div 36524 - doe div 146096) div 365;
          doy = doe - (365 * yoe + yoe div 4 - yoe div 100);
          mp = (5 * doy + 2) div 153;
          dd = doy - (153 * mp + 2) div 5 + 1;
          mo = (if mp < 10 then mp + 3 else mp - 9)
      in (yoe + era * 400 + (if mo \<le> 2 then 1 else 0), mo, dd))"

definition formatDateTime :: "instant \<Rightarrow> string" where
  "formatDateTime t =
     (let secs = t div 1000000000;
          ms = (t mod 1000000000) div 1000000;
          sod = secs mod 86400
      in case civilFromDays (secs div 86400) of
           (y, mo, dd) \<Rightarrow>
             formatYear y @ ''-'' @ pad 2 (nat mo) @ ''-'' @ pad 2 (nat dd) @ ''T''
             @ pad 2 (nat (sod div 3600)) @ '':'' @ pad 2 (nat ((sod mod 3600) div 60))
             @ '':'' @ pad 2 (nat (sod mod 60)) @ ''.'' @ pad 3 (nat ms) @ ''Z'')"

text \<open>
  What the resource takes from its platform: the width of \<^verbatim>\<open>int\<close>, \<^verbatim>\<open>time.Parse\<close> for
  the RFC 3339 layout, and \<^verbatim>\<open>strfmt.DateTime.String\<close>, which the read path tests against
  the empty string.
\<close>

record platform =
  intWidth :: intSize
  timeParse :: "string \<Rightarrow> instant option"
  dateTimeString :: "instant \<Rightarrow> string"

text \<open>\<^verbatim>\<open>t, _ := time.Parse(time.RFC3339, s)\<close>: the error is dropped, the zero time stays.\<close>

definition parseOrZero :: "(string \<Rightarrow> instant option) \<Rightarrow> string \<Rightarrow> instant" where
  "parseOrZero tp s = (case tp s of None \<Rightarrow> zeroTime | Some t \<Rightarrow> t)"

section \<open>Data model\<close>

subsection \<open>The declarative configuration\<close>

text \<open>
  \<^verbatim>\<open>schema.ResourceData\<close> as the resource reads it with \<^verbatim>\<open>d.Get\<close>: one field for each
  attribute of the schema of \<^verbatim>\<open>ResourceReport\<close>. An attribute that is not set reads as the
  zero value of its type. The block \<^verbatim>\<open>schedule\<close> has exactly one item
  (\<^verbatim>\<open>MinItems: 1, MaxItems: 1\<close>), read as \<^verbatim>\<open>schedule.0.*\<close>. The keys \<^verbatim>\<open>from\<close> and
  \<^verbatim>\<open>to\<close> of a time range are primed here.
\<close>

record time_range_block =
  from' :: string
  to' :: string

record schedule_block =
  frequency :: string
  start_time :: string
  end_time :: string
  workdays_only :: bool
  custom_interval :: string
  last_day_of_month :: bool
  timezone :: string

record dashboard_block =
  uid :: string

record dashboards_item =
  dashboard :: "dashboard_block list"
  item_time_range :: "time_range_block list"
  report_variables :: string

record ResourceData =
  Id :: string
  name :: string
  dashboard_id :: int
  dashboard_uid :: string
  recipients :: "string list"
  reply_to :: string
  message :: string
  include_dashboard_link :: bool
  include_table_csv :: bool
  layout :: string
  orientation :: string
  formats :: "string list"
  state :: string
  scale_factor :: int
  time_range :: "time_range_block list"
  schedule :: schedule_block
  dashboards :: "dashboards_item list"
  template_vars :: "string option"

subsection \<open>The wire model\<close>

text \<open>
  The types of package \<^verbatim>\<open>models\<close> with the fields the resource touches. A Go pointer is
  an \<open>option\<close> (\<open>None\<close> is \<^verbatim>\<open>nil\<close>), a slice a list (\<open>[]\<close> is also the \<^verbatim>\<open>nil\<close>
  slice), \<^verbatim>\<open>interface{}\<close> an optional opaque text, and a field that was never assigned
  holds the zero value of its type. The read entity \<^verbatim>\<open>r.Payload\<close> carries the fields of
  the command and the identifiers \<^verbatim>\<open>ID\<close> and \<^verbatim>\<open>OrgID\<close>.
\<close>

record TimeRangeDTO =
  From :: string
  To :: string

record DashboardReportDTO =
  ID :: int
  UID :: string

record DashboardDTO =
  Dashboard :: "DashboardReportDTO option"
  ReportVariables :: "string option"
  TimeRange :: "TimeRangeDTO option"

record ReportOptionsDTO =
  Layout :: string
  Orientation :: string
  OptionsTimeRange :: "TimeRangeDTO option"

record ScheduleDTO =
  Frequency :: string
  TimeZone :: string
  StartDate :: instant
  EndDate :: instant
  DayOfMonth :: string
  WorkdaysOnly :: bool
  IntervalAmount :: int
  IntervalFrequency :: string

record CreateOrUpdateConfigCmd =
  Name :: string
  EnableDashboardURL :: bool
  EnableCSV :: bool
  Message :: string
  Options :: "ReportOptionsDTO option"
  Recipients :: string
  ReplyTo :: string
  ScaleFactor :: int
  State :: string
  Schedule :: "ScheduleDTO option"
  Formats :: "string list"
  DashboardID :: int
  TemplateVars :: "string option"
  Dashboards :: "DashboardDTO option list"

record Report = CreateOrUpdateConfigCmd +
  ReportID :: int
  OrgID :: int

subsection \<open>Results\<close>

datatype panic = IndexOutOfRange | NilDereference

text \<open>
  The errors of the resource: \<open>Errorf\<close> carries the text of \<^verbatim>\<open>errors.New\<close> or
  \<^verbatim>\<open>fmt.Errorf\<close>, \<open>TimeParseError\<close> is the error of \<^verbatim>\<open>time.Parse\<close> on the given input,
  \<open>NumError\<close> the error of \<^verbatim>\<open>strconv.ParseInt\<close>, \<open>RemoteError\<close> an error of the
  API client, and \<open>UpdateFailed\<close> the diagnostic of \<^verbatim>\<open>UpdateReport\<close> that quotes the
  command it sent.
\<close>

datatype error =
    Errorf string
  | TimeParseError string
  | NumError string
  | RemoteError string
  | UpdateFailed "CreateOrUpdateConfigCmd option" error

text \<open>
  A Go call returns (\<open>Ok\<close>), returns an error or diagnostics (\<open>Err\<close>), or panics.
\<close>

datatype 'a result = Ok 'a | Err error | Panic panic

section \<open>Custom intervals\<close>

definition reportFrequencyHourly :: string where "reportFrequencyHourly = ''hourly''"
definition reportFrequencyDaily :: string where "reportFrequencyDaily = ''daily''"
definition reportFrequencyWeekly :: string where "reportFrequencyWeekly = ''weekly''"
definition reportFrequencyMonthly :: string where "reportFrequencyMonthly = ''monthly''"
definition reportFrequencyCustom :: string where "reportFrequencyCustom = ''custom''"
definition reportFrequencyOnce :: string where "reportFrequencyOnce = ''once''"
definition reportFrequencyNever :: string where "reportFrequencyNever = ''never''"
definition reportFormatPDF :: string where "reportFormatPDF = ''pdf''"

lemmas reportFrequency_defs =
  reportFrequencyHourly_def reportFrequencyDaily_def reportFrequencyWeekly_def
  reportFrequencyMonthly_def reportFrequencyCustom_def reportFrequencyOnce_def
  reportFrequencyNever_def

definition parseErr :: error where
  "parseErr = Errorf ''custom_interval must be in format `<number> <unit>` where unit is one of `hours`, `days`, `weeks`, `months`''"

text \<open>
  \<^verbatim>\<open>parseCustomReportInterval\<close>. The schema hands it a string, so the type assertion
  \<^verbatim>\<open>i.(string)\<close> holds; \<^verbatim>\<open>split[0]\<close> and \<^verbatim>\<open>split[1]\<close> are read after the length check.
\<close>

definition parseCustomReportInterval :: "intSize \<Rightarrow> string \<Rightarrow> error + int \<times> string" where
  "parseCustomReportInterval b v =
     (case strings_Split CHR '' '' v of
        [amount, u] \<Rightarrow>
          (case Atoi b amount of
             None \<Rightarrow> Inl parseErr
           | Some number \<Rightarrow>
               if u \<noteq> ''hours'' \<and> u \<noteq> ''days'' \<and> u \<noteq> ''weeks'' \<and> u \<noteq> ''months''
               then Inl parseErr
               else Inr (number, u))
      | _ \<Rightarrow> Inl parseErr)"

text \<open>\<^verbatim>\<open>fmt.Sprintf("%d %s", amount, unit)\<close> of the read path.\<close>

definition formatCustomInterval :: "int \<Rightarrow> string \<Rightarrow> string" where
  "formatCustomInterval amount u = formatInt amount @ '' '' @ u"

section \<open>Forward translation: building the wire command\<close>

definition reportWorkdaysOnlyConfigAllowed :: "string \<Rightarrow> bool" where
  "reportWorkdaysOnlyConfigAllowed freq =
     (freq = reportFrequencyHourly \<or> freq = reportFrequencyDaily \<or> freq = reportFrequencyCustom)"

definition createReportSchema :: "ResourceData \<Rightarrow> CreateOrUpdateConfigCmd" where
  "createReportSchema d =
     \<lparr> Name = name d,
       EnableDashboardURL = include_dashboard_link d,
       EnableCSV = include_table_csv d,
       Message = message d,
       Options = Some \<lparr> Layout = layout d, Orientation = orientation d, OptionsTimeRange = None \<rparr>,
       Recipients = strings_Join (recipients d) CHR '','',
       ReplyTo = reply_to d,
       ScaleFactor = scale_factor d,
       State = state d,
       Schedule = Some \<lparr> Frequency = frequency (schedule d), TimeZone = timezone (schedule d),
                         StartDate = zeroTime, EndDate = zeroTime, DayOfMonth = [],
                         WorkdaysOnly = False, IntervalAmount = 0, IntervalFrequency = [] \<rparr>,
       Formats = [],
       DashboardID = 0,
       TemplateVars = None,
       Dashboards = [] \<rparr>"

text \<open>
  \<^verbatim>\<open>setDeprecatedDashboardValues\<close>. The time range is built before the identity check;
  \<^verbatim>\<open>report.Options.TimeRange = ...\<close> dereferences \<^verbatim>\<open>report.Options\<close>.
\<close>

definition setDeprecatedDashboardValues ::
  "CreateOrUpdateConfigCmd \<Rightarrow> ResourceData \<Rightarrow> CreateOrUpdateConfigCmd result" where
  "setDeprecatedDashboardValues report d =
     (let id = dashboard_id d;
          uid = dashboard_uid d;
          timeRangeDTO =
            (case time_range d of
               [] \<Rightarrow> \<lparr> From = [], To = [] \<rparr>
             | tr # _ \<Rightarrow> \<lparr> From = from' tr, To = to' tr \<rparr>)
      in
        if id = 0 \<and> uid = [] then Err (Errorf ''dashboard_id or dashboard_uid should be set'')
        else if uid = [] then
          (case Options report of
             None \<Rightarrow> Panic NilDereference
           | Some opts \<Rightarrow>
               Ok (report\<lparr> DashboardID := id,
                           Options := Some (opts\<lparr> OptionsTimeRange := Some timeRangeDTO \<rparr>),
                           TemplateVars := template_vars d \<rparr>))
        else
          Ok (report\<lparr> Dashboards :=
                [Some \<lparr> Dashboard = Some \<lparr> ID = 0, UID = uid \<rparr>,
                        ReportVariables = template_vars d,
                        TimeRange = Some timeRangeDTO \<rparr>] \<rparr>))"

text \<open>
  \<^verbatim>\<open>setReportFrequency\<close>, one definition for each of its five blocks, in the order of the
  source. Each takes the schedule \<^verbatim>\<open>report.Schedule\<close> points to and the configuration.
\<close>

definition setStartDate :: "platform \<Rightarrow> ScheduleDTO \<Rightarrow> ResourceData \<Rightarrow> error + ScheduleDTO" where
  "setStartDate p sch d =
     (if Frequency sch \<noteq> reportFrequencyNever \<and> start_time (schedule d) \<noteq> [] then
        (case timeParse p (start_time (schedule d)) of
           None \<Rightarrow> Inl (TimeParseError (start_time (schedule d)))
         | Some startDate \<Rightarrow> Inr (sch\<lparr> StartDate := startDate \<rparr>))
      else Inr sch)"

definition setEndDate :: "platform \<Rightarrow> ScheduleDTO \<Rightarrow> ResourceData \<Rightarrow> error + ScheduleDTO" where
  "setEndDate p sch d =
     (if Frequency sch \<noteq> reportFrequencyOnce \<and> Frequency sch \<noteq> reportFrequencyNever
         \<and> end_time (schedule d) \<noteq> [] then
        (case timeParse p (end_time (schedule d)) of
           None \<Rightarrow> Inl (TimeParseError (end_time (schedule d)))
         | Some endDate \<Rightarrow> Inr (sch\<lparr> EndDate := endDate \<rparr>))
      else Inr sch)"

definition setDayOfMonth :: "ScheduleDTO \<Rightarrow> ResourceData \<Rightarrow> ScheduleDTO" where
  "setDayOfMonth sch d =
     (if Frequency sch = reportFrequencyMonthly \<and> last_day_of_month (schedule d)
      then sch\<lparr> DayOfMonth := ''last'' \<rparr> else sch)"

definition setWorkdaysOnly :: "ScheduleDTO \<Rightarrow> ResourceData \<Rightarrow> ScheduleDTO" where
  "setWorkdaysOnly sch d =
     (if reportWorkdaysOnlyConfigAllowed (Frequency sch)
      then sch\<lparr> WorkdaysOnly := workdays_only (schedule d) \<rparr> else sch)"

definition setInterval :: "platform \<Rightarrow> ScheduleDTO \<Rightarrow> ResourceData \<Rightarrow> error + ScheduleDTO" where
  "setInterval p sch d =
     (if Frequency sch = reportFrequencyCustom then
        (case parseCustomReportInterval (intWidth p) (custom_interval (schedule d)) of
           Inl err \<Rightarrow> Inl err
         | Inr (amount, u) \<Rightarrow> Inr (sch\<lparr> IntervalAmount := amount, IntervalFrequency := u \<rparr>))
      else Inr sch)"

definition setReportFrequency ::
  "platform \<Rightarrow> CreateOrUpdateConfigCmd \<Rightarrow> ResourceData \<Rightarrow> CreateOrUpdateConfigCmd result" where
  "setReportFrequency p report d =
     (case Schedule report of
        None \<Rightarrow> Panic NilDereference
      | Some sch0 \<Rightarrow>
          (case setStartDate p sch0 d of
             Inl err \<Rightarrow> Err err
           | Inr sch1 \<Rightarrow>
               (case setEndDate p sch1 d of
                  Inl err \<Rightarrow> Err err
                | Inr sch2 \<Rightarrow>
                    (case setInterval p (setWorkdaysOnly (setDayOfMonth sch2 d) d) d of
                       Inl err \<Rightarrow> Err err
                     | Inr sch3 \<Rightarrow> Ok (report\<lparr> Schedule := Some sch3 \<rparr>)))))"

text \<open>
  \<^verbatim>\<open>schemaToReportParams\<close>. With a non-empty \<^verbatim>\<open>dashboards\<close> list the branch of the source is
  empty: its only statement, \<^verbatim>\<open>report.Dashboards = dashboards\<close>, is commented out. The
  declared formats are read and only their number is used.
\<close>

definition schemaToReportParams ::
  "platform \<Rightarrow> ResourceData \<Rightarrow> CreateOrUpdateConfigCmd result" where
  "schemaToReportParams p d =
     (let report = createReportSchema d in
      case (if length (dashboards d) > 0 then Ok report
            else setDeprecatedDashboardValues report d) of
        Err err \<Rightarrow> Err err
      | Panic pn \<Rightarrow> Panic pn
      | Ok report1 \<Rightarrow>
          (let report2 =
                 (if length (formats d) = 0 then report1\<lparr> Formats := [reportFormatPDF] \<rparr>
                  else report1)
           in setReportFrequency p report2 d))"

section \<open>Reverse translation: reading the wire entity\<close>

text \<open>
  A value handed to \<^verbatim>\<open>d.Set\<close>: a string, an integer, a boolean, a \<^verbatim>\<open>time.Time\<close>, a list
  of strings, or a list of blocks (\<^verbatim>\<open>[]interface{}\<close> of \<^verbatim>\<open>map[string]interface{}\<close>),
  a block being the list of its keys with their values.
\<close>

datatype attr =
    AString string
  | AInt int
  | ABool bool
  | ATime instant
  | AStrings "string list"
  | ABlocks "(string \<times> attr) list list"

text \<open>
  The schema of \<^verbatim>\<open>ResourceReport\<close>: the type of each attribute, and for a list or a set
  the schema or the resource of its elements (\<^verbatim>\<open>Elem\<close>).
\<close>

datatype schemaType = TypeString | TypeInt | TypeBool | TypeList elem | TypeSet elem
and elem = ElemSchema schemaType | ElemResource "(string \<times> schemaType) list"

definition timeRangeSchema :: "(string \<times> schemaType) list" where
  "timeRangeSchema = [(''from'', TypeString), (''to'', TypeString)]"

definition scheduleSchema :: "(string \<times> schemaType) list" where
  "scheduleSchema =
     [(''frequency'', TypeString),
      (''start_time'', TypeString),
      (''end_time'', TypeString),
      (''workdays_only'', TypeBool),
      (''custom_interval'', TypeString),
      (''last_day_of_month'', TypeBool),
      (''timezone'', TypeString)]"

text \<open>
  \<^verbatim>\<open>org_id\<close> is declared by \<^verbatim>\<open>orgIDAttribute()\<close>, in another file of the provider: a
  string attribute.
\<close>

definition reportSchema :: "(string \<times> schemaType) list" where
  "reportSchema =
     [(''org_id'', TypeString),
      (''id'', TypeString),
      (''name'', TypeString),
      (''dashboard_id'', TypeInt),
      (''dashboard_uid'', TypeString),
      (''recipients'', TypeList (ElemSchema TypeString)),
      (''reply_to'', TypeString),
      (''message'', TypeString),
      (''include_dashboard_link'', TypeBool),
      (''include_table_csv'', TypeBool),
      (''layout'', TypeString),
      (''orientation'', TypeString),
      (''formats'', TypeSet (ElemSchema TypeString)),
      (''state'', TypeString),
      (''scale_factor'', TypeInt),
      (''time_range'', TypeList (ElemResource timeRangeSchema)),
      (''schedule'', TypeList (ElemResource scheduleSchema)),
      (''dashboards'',
         TypeList (ElemResource
           [(''dashboard'', TypeList (ElemResource [(''uid'', TypeString)])),
            (''time_range'', TypeList (ElemResource timeRangeSchema)),
            (''report_variables'', TypeString)]))]"

text \<open>
  \<^verbatim>\<open>d.Set(key, value)\<close> of the plugin SDK. The value is decoded into the type the schema
  gives the key: a string attribute takes a string, an integer attribute an integer, a
  boolean attribute a boolean, and nothing else; a \<^verbatim>\<open>time.Time\<close> is taken by none. A
  block is taken when each of its keys is in the resource of the list and its value is
  taken there. When a part of the value is refused, \<^verbatim>\<open>d.Set\<close> stores nothing under the key
  and returns an error. \<^verbatim>\<open>ReadReport\<close> never looks at that error.
\<close>

fun primitiveAccepts :: "schemaType \<Rightarrow> attr \<Rightarrow> bool" where
  "primitiveAccepts TypeString (AString s) = True"
| "primitiveAccepts TypeInt (AInt i) = True"
| "primitiveAccepts TypeBool (ABool b) = True"
| "primitiveAccepts ty v = False"

definition blockAccepts :: "(string \<times> schemaType) list \<Rightarrow> (string \<times> attr) list \<Rightarrow> bool" where
  "blockAccepts resource block =
     list_all (\<lambda>kv. case map_of resource (fst kv) of
                        None \<Rightarrow> False
                      | Some ty \<Rightarrow> primitiveAccepts ty (snd kv)) block"

fun accepts :: "schemaType \<Rightarrow> attr \<Rightarrow> bool" where
  "accepts (TypeList (ElemResource resource)) (ABlocks blocks)
     = list_all (blockAccepts resource) blocks"
| "accepts (TypeList (ElemSchema TypeString)) (AStrings ss) = True"
| "accepts (TypeSet (ElemSchema TypeString)) (AStrings ss) = True"
| "accepts ty v = primitiveAccepts ty v"

text \<open>Whether a call of \<^verbatim>\<open>d.Set\<close> with this key and value stores the value.\<close>

definition stored :: "(string \<times> schemaType) list \<Rightarrow> string \<times> attr \<Rightarrow> bool" where
  "stored sch kv = (case map_of sch (fst kv) of None \<Rightarrow> False | Some ty \<Rightarrow> accepts ty (snd kv))"

text \<open>The literal \<^verbatim>\<open>schedule := map[string]interface{}{...}\<close> of \<^verbatim>\<open>ReadReport\<close>.\<close>

definition scheduleBase :: "ScheduleDTO \<Rightarrow> (string \<times> attr) list" where
  "scheduleBase sch =
     [(''timezone'', AString (TimeZone sch)),
      (''frequency'', AString (Frequency sch)),
      (''workdays_only'', ABool (WorkdaysOnly sch))]"

text \<open>The guarded assignment of \<^verbatim>\<open>schedule["custom_interval"]\<close>.\<close>

definition customIntervalAttr :: "ScheduleDTO \<Rightarrow> (string \<times> attr) list" where
  "customIntervalAttr sch =
     (if IntervalAmount sch \<noteq> 0 \<and> IntervalFrequency sch \<noteq> []
      then [(''custom_interval'',
             AString (formatCustomInterval (IntervalAmount sch) (IntervalFrequency sch)))]
      else [])"

text \<open>
  The blocks for \<^verbatim>\<open>start_time\<close> and \<^verbatim>\<open>end_time\<close>: the date is rendered, compared with the
  empty string, parsed again and put into the map as a \<^verbatim>\<open>time.Time\<close> in UTC; a parse
  error is returned.
\<close>

definition timeAttr :: "platform \<Rightarrow> string \<Rightarrow> instant \<Rightarrow> error + (string \<times> attr) list" where
  "timeAttr p key t =
     (if dateTimeString p t \<noteq> [] then
        (case timeParse p (dateTimeString p t) of
           None \<Rightarrow> Inl (TimeParseError (dateTimeString p t))
         | Some t' \<Rightarrow> Inr [(key, ATime t')])
      else Inr [])"

definition lastDayAttr :: "ScheduleDTO \<Rightarrow> (string \<times> attr) list" where
  "lastDayAttr sch =
     (if DayOfMonth sch = ''last'' then [(''last_day_of_month'', ABool True)] else [])"

definition scheduleAttrs :: "platform \<Rightarrow> ScheduleDTO \<Rightarrow> error + (string \<times> attr) list" where
  "scheduleAttrs p sch =
     (case timeAttr p ''start_time'' (StartDate sch) of
        Inl err \<Rightarrow> Inl err
      | Inr st \<Rightarrow>
          (case timeAttr p ''end_time'' (EndDate sch) of
             Inl err \<Rightarrow> Inl err
           | Inr en \<Rightarrow>
               Inr (scheduleBase sch @ customIntervalAttr sch @ st @ en @ lastDayAttr sch)))"

text \<open>
  The API client and the helpers of the provider that \<^verbatim>\<open>resource_report.go\<close> calls and
  that live in other files: \<^verbatim>\<open>OAPIClientFromNewOrgResource\<close> (the organisation of a new
  resource), \<^verbatim>\<open>OAPIClientFromExistingOrgResource\<close> (the organisation and the report
  identifier held in a resource ID), \<^verbatim>\<open>MakeOrgResourceID\<close>, and
  \<^verbatim>\<open>common.CheckReadError\<close>, whose result is \<open>Some dg\<close> when it asks the caller to return
  the diagnostics \<open>dg\<close> and \<open>None\<close> when the read goes on. Each operation calls each
  endpoint at most once, so an endpoint is a function from the request to its response.
\<close>

record client =
  orgOfNewResource :: "ResourceData \<Rightarrow> int"
  splitOrgResourceID :: "string \<Rightarrow> int \<times> string"
  MakeOrgResourceID :: "int \<Rightarrow> int \<Rightarrow> string"
  CheckReadError :: "error option \<Rightarrow> error option"
  Reports_CreateReport :: "CreateOrUpdateConfigCmd option \<Rightarrow> error + int"
  Reports_GetReport :: "int \<Rightarrow> error + Report"
  Reports_UpdateReport :: "int \<Rightarrow> CreateOrUpdateConfigCmd option \<Rightarrow> error option"

text \<open>The requests an operation sends, in order.\<close>

datatype call =
    CreateReportCall "CreateOrUpdateConfigCmd option"
  | GetReportCall int
  | UpdateReportCall int "CreateOrUpdateConfigCmd option"

text \<open>\<^verbatim>\<open>strconv.ParseInt(idStr, 10, 64)\<close>.\<close>

definition ParseInt :: "string \<Rightarrow> int option" where
  "ParseInt s = Atoi Bits64 s"

text \<open>
  The body of \<^verbatim>\<open>ReadReport\<close> after the report has been fetched: the new resource ID and
  the attributes that the calls of \<^verbatim>\<open>d.Set\<close> store, in the order of the source. The list
  under \<open>filter\<close> holds what the source hands to \<^verbatim>\<open>d.Set\<close>; a value the schema
  refuses is not stored, and the attribute keeps what it held before. The zeroth entry of
  \<^verbatim>\<open>r.Payload.Dashboards\<close> is indexed first; \<^verbatim>\<open>Options\<close>, the time range of that entry
  and \<^verbatim>\<open>Schedule\<close> are dereferenced in this order.
\<close>

definition readPayload ::
  "client \<Rightarrow> platform \<Rightarrow> ResourceData \<Rightarrow> int \<Rightarrow> Report \<Rightarrow> (string \<times> (string \<times> attr) list) result" where
  "readPayload cl p d id' r =
     (case Dashboards r of
        [] \<Rightarrow> Panic IndexOutOfRange
      | None # _ \<Rightarrow> Panic NilDereference
      | Some d0 # _ \<Rightarrow>
          (case Dashboard d0 of
             None \<Rightarrow> Panic NilDereference
           | Some db \<Rightarrow>
               (case Options r of
                  None \<Rightarrow> Panic NilDereference
                | Some opts \<Rightarrow>
                    (case TimeRange d0 of
                       None \<Rightarrow> Panic NilDereference
                     | Some timeRange \<Rightarrow>
                         (case Schedule r of
                            None \<Rightarrow> Panic NilDereference
                          | Some sch \<Rightarrow>
                              (case scheduleAttrs p sch of
                                 Inl err \<Rightarrow> Err err
                               | Inr scheduleMap \<Rightarrow>
                                   Ok (MakeOrgResourceID cl (OrgID r) id',
                                       filter (stored reportSchema)
                                         ([(''dashboard_id'', AInt (ID db)),
                                          (''dashboard_uid'', AString (UID db)),
                                          (''name'', AString (Name r)),
                                          (''recipients'', AStrings (strings_Split CHR '','' (Recipients r))),
                                          (''reply_to'', AString (ReplyTo r)),
                                          (''message'', AString (Message r)),
                                          (''include_dashboard_link'', ABool (EnableDashboardURL r)),
                                          (''include_table_csv'', ABool (EnableCSV r)),
                                          (''layout'', AString (Layout opts)),
                                          (''orientation'', AString (Orientation opts)),
                                          (''org_id'', AString (formatInt (OrgID r))),
                                          (''state'', AString (State r)),
                                          (''scale_factor'', AInt (ScaleFactor r))]
                                         @ (if formats d \<noteq> [] then [(''formats'', AStrings (Formats r))]
                                            else [])
                                         @ (if From timeRange \<noteq> []
                                            then [(''time_range'',
                                                   ABlocks [[(''from'', AString (From timeRange)),
                                                             (''to'', AString (To timeRange))]])]
                                            else [])
                                       @ [(''schedule'', ABlocks [scheduleMap])]))))))))"

text \<open>
  \<^verbatim>\<open>ReadReport\<close>, with the requests it sent. When \<^verbatim>\<open>CheckReadError\<close> lets a failed fetch
  go on, \<^verbatim>\<open>r\<close> is \<^verbatim>\<open>nil\<close> and \<^verbatim>\<open>r.Payload\<close> panics.
\<close>

definition ReadReport ::
  "client \<Rightarrow> platform \<Rightarrow> ResourceData \<Rightarrow> (string \<times> (string \<times> attr) list) result \<times> call list" where
  "ReadReport cl p d =
     (case ParseInt (snd (splitOrgResourceID cl (Id d))) of
        None \<Rightarrow> (Err (NumError (snd (splitOrgResourceID cl (Id d)))), [])
      | Some id' \<Rightarrow>
          (case CheckReadError cl (case Reports_GetReport cl id' of Inl e \<Rightarrow> Some e | Inr _ \<Rightarrow> None) of
             Some dg \<Rightarrow> (Err dg, [GetReportCall id'])
           | None \<Rightarrow>
               (case Reports_GetReport cl id' of
                  Inl e \<Rightarrow> (Panic NilDereference, [GetReportCall id'])
                | Inr r \<Rightarrow> (readPayload cl p d id' r, [GetReportCall id']))))"

section \<open>The operations that write\<close>

text \<open>
  \<^verbatim>\<open>CreateReport\<close>. When \<^verbatim>\<open>schemaToReportParams\<close> returns an error, the source builds
  \<^verbatim>\<open>diag.FromErr(err)\<close> and drops it: there is no \<^verbatim>\<open>return\<close>, \<^verbatim>\<open>req\<close> is \<^verbatim>\<open>nil\<close>, and
  the function goes on to \<^verbatim>\<open>client.Reports.CreateReport\<close>.
\<close>

definition CreateReport ::
  "client \<Rightarrow> platform \<Rightarrow> ResourceData \<Rightarrow> (string \<times> (string \<times> attr) list) result \<times> call list" where
  "CreateReport cl p d =
     (case schemaToReportParams p d of
        Panic pn \<Rightarrow> (Panic pn, [])
      | built \<Rightarrow>
          (let req = (case built of Ok report \<Rightarrow> Some report | _ \<Rightarrow> None) in
           case Reports_CreateReport cl req of
             Inl e \<Rightarrow> (Err e, [CreateReportCall req])
           | Inr newID \<Rightarrow>
               (let rd = ReadReport cl p (d\<lparr> Id := MakeOrgResourceID cl (orgOfNewResource cl d) newID \<rparr>)
                in (fst rd, CreateReportCall req # snd rd))))"

definition UpdateReport ::
  "client \<Rightarrow> platform \<Rightarrow> ResourceData \<Rightarrow> (string \<times> (string \<times> attr) list) result \<times> call list" where
  "UpdateReport cl p d =
     (case ParseInt (snd (splitOrgResourceID cl (Id d))) of
        None \<Rightarrow> (Err (NumError (snd (splitOrgResourceID cl (Id d)))), [])
      | Some id' \<Rightarrow>
          (case schemaToReportParams p d of
             Panic pn \<Rightarrow> (Panic pn, [])
           | Err err \<Rightarrow> (Err err, [])
           | Ok report \<Rightarrow>
               (case Reports_UpdateReport cl id' (Some report) of
                  Some e \<Rightarrow> (Err (UpdateFailed (Some report) e), [UpdateReportCall id' (Some report)])
                | None \<Rightarrow>
                    (let rd = ReadReport cl p d
                     in (fst rd, UpdateReportCall id' (Some report) # snd rd)))))"

section \<open>Reconciliation of start and end times\<close>

text \<open>
  The \<^verbatim>\<open>DiffSuppressFunc\<close> of \<^verbatim>\<open>schedule.0.start_time\<close> and of \<^verbatim>\<open>schedule.0.end_time\<close>;
  \<open>now\<close> is \<^verbatim>\<open>time.Now()\<close>.
\<close>

definition startTimeDiffSuppress :: "platform \<Rightarrow> instant \<Rightarrow> string \<Rightarrow> string \<Rightarrow> bool" where
  "startTimeDiffSuppress p now old new =
     (let oldParsed = parseOrZero (timeParse p) old;
          newParsed = parseOrZero (timeParse p) new
      in if new = [] \<and> oldParsed < now then True else oldParsed = newParsed)"

definition endTimeDiffSuppress :: "platform \<Rightarrow> string \<Rightarrow> string \<Rightarrow> bool" where
  "endTimeDiffSuppress p old new =
     (let oldParsed = parseOrZero (timeParse p) old;
          newParsed = parseOrZero (timeParse p) new
      in oldParsed = newParsed)"

section \<open>Concrete runs\<close>

text \<open>A 64-bit platform with the two library functions above.\<close>

definition platform64 :: platform where
  "platform64 = \<lparr> intWidth = Bits64, timeParse = parseRFC3339, dateTimeString = formatDateTime \<rparr>"

text \<open>
  The report of \<^verbatim>\<open>examples/resources/grafana_report\<close> with two \<^verbatim>\<open>dashboards\<close> blocks:
  monthly, on the last day of the month, in the time zone of Los Angeles. Attributes the
  example leaves out hold their defaults (\<^verbatim>\<open>include_table_csv\<close> and \<^verbatim>\<open>workdays_only\<close>
  false) or the zero value.
\<close>

definition multipleDashboardsReport :: ResourceData where
  "multipleDashboardsReport =
     \<lparr> Id = [],
       name = ''multiple dashboards report'',
       dashboard_id = 0,
       dashboard_uid = [],
       recipients = [''some@email.com''],
       reply_to = [],
       message = [],
       include_dashboard_link = True,
       include_table_csv = False,
       layout = ''grid'',
       orientation = ''portrait'',
       formats = [''pdf''],
       state = ''scheduled'',
       scale_factor = 2,
       time_range = [],
       schedule = \<lparr> frequency = ''monthly'', start_time = [], end_time = [],
                     workdays_only = False, custom_interval = [],
                     last_day_of_month = True, timezone = ''America/Los_Angeles'' \<rparr>,
       dashboards =
         [\<lparr> dashboard = [\<lparr> uid = ''report'' \<rparr>],
            item_time_range = [\<lparr> from' = ''now-1h'', to' = ''now'' \<rparr>],
            report_variables = [] \<rparr>,
          \<lparr> dashboard = [\<lparr> uid = ''report'' \<rparr>],
            item_time_range = [],
            report_variables = [] \<rparr>],
       template_vars = None \<rparr>"

text \<open>A report bound to one dashboard by its uid, the form in use before the list.\<close>

definition legacyReport :: ResourceData where
  "legacyReport = multipleDashboardsReport\<lparr> dashboard_uid := ''report'', dashboards := [] \<rparr>"

text \<open>A configuration that names no dashboard at all.\<close>

definition noDashboardReport :: ResourceData where
  "noDashboardReport = multipleDashboardsReport\<lparr> dashboards := [] \<rparr>"

text \<open>
  A server for the concrete runs. It refuses a create request without a body, gives a new
  report the identifier 7, and answers a fetch with the entity \<open>storedReport\<close>. Resource
  IDs are written \<^verbatim>\<open>org:id\<close>.
\<close>

definition storedReport :: Report where
  "storedReport =
     \<lparr> Name = ''multiple dashboards report'',
       EnableDashboardURL = True,
       EnableCSV = False,
       Message = [],
       Options = Some \<lparr> Layout = ''grid'', Orientation = ''portrait'', OptionsTimeRange = None \<rparr>,
       Recipients = ''some@email.com'',
       ReplyTo = [],
       ScaleFactor = 2,
       State = ''scheduled'',
       Schedule = Some \<lparr> Frequency = ''monthly'', TimeZone = ''America/Los_Angeles'',
                         StartDate = zeroTime, EndDate = zeroTime, DayOfMonth = ''last'',
                         WorkdaysOnly = False, IntervalAmount = 0, IntervalFrequency = [] \<rparr>,
       Formats = [''pdf''],
       DashboardID = 0,
       TemplateVars = None,
       Dashboards = [Some \<lparr> Dashboard = Some \<lparr> ID = 3, UID = ''report'' \<rparr>,
                            ReportVariables = None,
                            TimeRange = Some \<lparr> From = ''now-1h'', To = ''now'' \<rparr> \<rparr>],
       ReportID = 7,
       OrgID = 1 \<rparr>"

definition exampleClient :: client where
  "exampleClient =
     \<lparr> orgOfNewResource = (\<lambda>d. 1),
       splitOrgResourceID =
         (\<lambda>s. (signedValue (takeWhile (\<lambda>c. c \<noteq> CHR '':'') s),
               drop 1 (dropWhile (\<lambda>c. c \<noteq> CHR '':'') s))),
       MakeOrgResourceID = (\<lambda>org i. formatInt org @ '':'' @ formatInt i),
       CheckReadError = (\<lambda>e. e),
       Reports_CreateReport =
         (\<lambda>req. case req of None \<Rightarrow> Inl (RemoteError ''bad request'') | Some _ \<Rightarrow> Inr 7),
       Reports_GetReport = (\<lambda>i. Inr storedReport),
       Reports_UpdateReport = (\<lambda>i req. None) \<rparr>"

text \<open>The same server holding a report whose list of dashboards is empty.\<close>

definition emptyDashboardsClient :: client where
  "emptyDashboardsClient =
     exampleClient\<lparr> Reports_GetReport := (\<lambda>i. Inr (storedReport\<lparr> Dashboards := [] \<rparr>)) \<rparr>"

text \<open>The command expected for \<open>multipleDashboardsReport\<close> as the source builds it.\<close>

definition multipleDashboardsCommand :: CreateOrUpdateConfigCmd where
  "multipleDashboardsCommand =
     \<lparr> Name = ''multiple dashboards report'',
       EnableDashboardURL = True,
       EnableCSV = False,
       Message = [],
       Options = Some \<lparr> Layout = ''grid'', Orientation = ''portrait'', OptionsTimeRange = None \<rparr>,
       Recipients = ''some@email.com'',
       ReplyTo = [],
       ScaleFactor = 2,
       State = ''scheduled'',
       Schedule = Some \<lparr> Frequency = ''monthly'', TimeZone = ''America/Los_Angeles'',
                         StartDate = zeroTime, EndDate = zeroTime, DayOfMonth = ''last'',
                         WorkdaysOnly = False, IntervalAmount = 0, IntervalFrequency = [] \<rparr>,
       Formats = [],
       DashboardID = 0,
       TemplateVars = None,
       Dashboards = [] \<rparr>"

text \<open>
  Variants of the legacy report: sent once, with an end time declared; sent hourly on
  work days; sent at a custom interval that is not declared; and the legacy report as it
  is held after a read, under the resource ID \<^verbatim>\<open>1:7\<close>.
\<close>

definition onceReport :: ResourceData where
  "onceReport =
     legacyReport\<lparr> schedule :=
       \<lparr> frequency = ''once'', start_time = [], end_time = ''2030-01-01T00:00:00Z'',
         workdays_only = False, custom_interval = [], last_day_of_month = False,
         timezone = ''GMT'' \<rparr> \<rparr>"

definition hourlyReport :: ResourceData where
  "hourlyReport =
     legacyReport\<lparr> schedule :=
       \<lparr> frequency = ''hourly'', start_time = [], end_time = [],
         workdays_only = True, custom_interval = [], last_day_of_month = False,
         timezone = ''GMT'' \<rparr> \<rparr>"

definition customReport :: ResourceData where
  "customReport =
     legacyReport\<lparr> schedule :=
       \<lparr> frequency = ''custom'', start_time = [], end_time = [],
         workdays_only = False, custom_interval = [], last_day_of_month = False,
         timezone = ''GMT'' \<rparr> \<rparr>"

definition existingReport :: ResourceData where
  "existingReport = legacyReport\<lparr> Id := ''1:7'' \<rparr>"

section \<open>The interval grammar, stated on the string\<close>

text \<open>
  The grammar of a custom interval without reference to the splitting: the text before the
  first space is the amount, the text after it the unit. The amount is an optional sign and
  one or more decimal digits, with a value that fits \<^verbatim>\<open>int\<close>; the unit is one of the four
  literals.
\<close>

definition amountToken :: "string \<Rightarrow> string" where
  "amountToken s = takeWhile (\<lambda>c. c \<noteq> CHR '' '') s"

definition unitToken :: "string \<Rightarrow> string" where
  "unitToken s = drop 1 (dropWhile (\<lambda>c. c \<noteq> CHR '' '') s)"

definition intervalGrammar :: "intSize \<Rightarrow> string \<Rightarrow> bool" where
  "intervalGrammar b s =
     (dropWhile (\<lambda>c. c \<noteq> CHR '' '') s \<noteq> []
      \<and> unitToken s \<in> {''hours'', ''days'', ''weeks'', ''months''}
      \<and> stripSign (amountToken s) \<noteq> []
      \<and> list_all isDigit (stripSign (amountToken s))
      \<and> inIntRange b (signedValue (amountToken s)))"

section \<open>Properties of the library functions\<close>

lemma digitVal_digitChar: "k < 10 \<Longrightarrow> digitVal (digitChar k) = k"
  by (simp add: digitVal_def digitChar_def)

lemma isDigit_digitChar: "k < 10 \<Longrightarrow> isDigit (digitChar k)"
  by (simp add: isDigit_def digitChar_def)

lemma isDigit_not_sign: "isDigit c \<Longrightarrow> c \<noteq> CHR ''-'' \<and> c \<noteq> CHR ''+'' \<and> c \<noteq> CHR '' ''"
  by (auto simp: isDigit_def)

lemma digitsVal_snoc: "digitsVal (s @ [ch]) = digitsVal s * 10 + digitVal ch"
  by (simp add: digitsVal_def)

lemma formatNat_digits: "list_all isDigit (formatNat n)"
proof (induction n rule: formatNat.induct)
  case (1 n)
  show ?case
  proof (cases "n < 10")
    case True
    then show ?thesis by (subst formatNat.simps) (simp add: isDigit_digitChar)
  next
    case False
    with "1" have "list_all isDigit (formatNat (n div 10))" by simp
    moreover have "isDigit (digitChar (n mod 10))" by (simp add: isDigit_digitChar)
    ultimately show ?thesis using False by (subst formatNat.simps) simp
  qed
qed

lemma formatNat_nonempty: "formatNat n \<noteq> []"
  by (subst formatNat.simps) simp

lemma digitsVal_formatNat: "digitsVal (formatNat n) = n"
proof (induction n rule: formatNat.induct)
  case (1 n)
  show ?case
  proof (cases "n < 10")
    case True
    then show ?thesis
      by (subst formatNat.simps) (simp add: digitsVal_def digitVal_digitChar)
  next
    case False
    with "1" have ih: "digitsVal (formatNat (n div 10)) = n div 10" by simp
    have "digitsVal (formatNat n)
            = digitsVal (formatNat (n div 10)) * 10 + digitVal (digitChar (n mod 10))"
      using False by (subst formatNat.simps) (simp add: digitsVal_snoc)
    also have "\<dots> = n div 10 * 10 + n mod 10"
      by (simp add: ih digitVal_digitChar)
    finally show ?thesis by simp
  qed
qed

lemma strings_Split_nonempty: "strings_Split sep s \<noteq> []"
  by (induction s) (auto split: list.splits)

lemma strings_Split_no_sep: "sep \<notin> set s \<Longrightarrow> strings_Split sep s = [s]"
  by (induction s) auto

lemma strings_Split_sep: "sep \<in> set s \<Longrightarrow> \<exists>x y zs. strings_Split sep s = x # y # zs"
proof (induction s)
  case Nil
  then show ?case by simp
next
  case (Cons c cs)
  show ?case
  proof (cases "c = sep")
    case True
    obtain t ts where "strings_Split sep cs = t # ts"
      using strings_Split_nonempty [of sep cs] by (cases "strings_Split sep cs") auto
    with True show ?thesis by simp
  next
    case False
    with Cons.prems have "sep \<in> set cs" by simp
    then obtain x y zs where "strings_Split sep cs = x # y # zs"
      using Cons.IH by blast
    with False show ?thesis by simp
  qed
qed

lemma strings_Split_takeWhile:
  "strings_Split sep s =
     takeWhile (\<lambda>c. c \<noteq> sep) s #
       (case dropWhile (\<lambda>c. c \<noteq> sep) s of [] \<Rightarrow> [] | _ # r \<Rightarrow> strings_Split sep r)"
proof (induction s)
  case Nil
  show ?case by simp
next
  case (Cons c cs)
  show ?case
  proof (cases "c = sep")
    case True
    then show ?thesis by simp
  next
    case False
    then show ?thesis using Cons.IH by simp
  qed
qed

lemma units_no_space:
  "u \<in> {''hours'', ''days'', ''weeks'', ''months''} \<Longrightarrow> CHR '' '' \<notin> set u"
  by auto

lemma Atoi_grammar:
  "Atoi b a =
     (if stripSign a \<noteq> [] \<and> list_all isDigit (stripSign a) \<and> inIntRange b (signedValue a)
      then Some (signedValue a) else None)"
  by (simp add: Atoi_def)

lemma Atoi_formatNat:
  assumes "int n < 2 ^ (bits b - 1)"
  shows "Atoi b (formatNat n) = Some (int n)"
proof -
  obtain c cs where fc: "formatNat n = c # cs"
    using formatNat_nonempty [of n] by (cases "formatNat n") auto
  have all: "list_all isDigit (formatNat n)" by (rule formatNat_digits)
  with fc have "isDigit c" by simp
  then have c: "c \<noteq> CHR ''-''" "c \<noteq> CHR ''+''" using isDigit_not_sign by blast+
  with fc have strip: "stripSign (formatNat n) = formatNat n" by simp
  from fc c have "take 1 (formatNat n) \<noteq> ''-''" by simp
  then have val: "signedValue (formatNat n) = int n"
    by (simp add: signedValue_def strip digitsVal_formatNat)
  have "- (2 ^ (bits b - 1)) \<le> (0::int)" by simp
  also have "(0::int) \<le> int n" by simp
  finally have "inIntRange b (int n)" using assms by (simp add: inIntRange_def)
  with all val strip show ?thesis
    using formatNat_nonempty [of n] by (simp add: Atoi_grammar)
qed

section \<open>Properties of the forward translation\<close>

lemma setDeprecatedDashboardValues_Ok:
  assumes "setDeprecatedDashboardValues report d = Ok report1"
  shows "Schedule report1 = Schedule report" and "Formats report1 = Formats report"
  using assms
  by (auto simp: setDeprecatedDashboardValues_def Let_def split: if_splits option.splits)

lemma schemaToReportParams_steps:
  assumes "schemaToReportParams p d = Ok report"
  shows "\<exists>report2. setReportFrequency p report2 d = Ok report
           \<and> Schedule report2 = Schedule (createReportSchema d)
           \<and> Formats report2 = (if formats d = [] then [reportFormatPDF] else [])
           \<and> (dashboards d \<noteq> [] \<longrightarrow> Dashboards report2 = [])"
proof (cases "dashboards d = []")
  case True
  then obtain report1 where r1: "setDeprecatedDashboardValues (createReportSchema d) d = Ok report1"
    and fin: "setReportFrequency p
                (if length (formats d) = 0 then report1\<lparr>Formats := [reportFormatPDF]\<rparr> else report1) d
              = Ok report"
    using assms by (auto simp: schemaToReportParams_def Let_def split: result.splits)
  from r1 have "Schedule report1 = Schedule (createReportSchema d)"
    and "Formats report1 = []"
    by (simp_all add: setDeprecatedDashboardValues_Ok createReportSchema_def)
  with fin True show ?thesis
    by (intro exI [where x = "if length (formats d) = 0 then report1\<lparr>Formats := [reportFormatPDF]\<rparr>
                              else report1"]) auto
next
  case False
  then have "setReportFrequency p
                (if length (formats d) = 0 then (createReportSchema d)\<lparr>Formats := [reportFormatPDF]\<rparr>
                 else createReportSchema d) d
              = Ok report"
    using assms by (auto simp: schemaToReportParams_def Let_def split: result.splits)
  then show ?thesis
    by (intro exI [where x = "if length (formats d) = 0
                              then (createReportSchema d)\<lparr>Formats := [reportFormatPDF]\<rparr>
                              else createReportSchema d"])
       (auto simp: createReportSchema_def)
qed

lemma setReportFrequency_Ok:
  assumes "setReportFrequency p report d = Ok report'"
  shows "\<exists>sch sch'. Schedule report = Some sch \<and> report' = report\<lparr>Schedule := Some sch'\<rparr>
           \<and> Frequency sch' = Frequency sch
           \<and> TimeZone sch' = TimeZone sch
           \<and> DayOfMonth sch' =
               (if Frequency sch = reportFrequencyMonthly \<and> last_day_of_month (schedule d)
                then ''last'' else DayOfMonth sch)
           \<and> WorkdaysOnly sch' =
               (if reportWorkdaysOnlyConfigAllowed (Frequency sch) then workdays_only (schedule d)
                else WorkdaysOnly sch)"
proof -
  from assms obtain sch0 sch1 sch2 sch3 where s0: "Schedule report = Some sch0"
    and s1: "setStartDate p sch0 d = Inr sch1"
    and s2: "setEndDate p sch1 d = Inr sch2"
    and s3: "setInterval p (setWorkdaysOnly (setDayOfMonth sch2 d) d) d = Inr sch3"
    and r: "report' = report\<lparr>Schedule := Some sch3\<rparr>"
    by (auto simp: setReportFrequency_def split: option.splits sum.splits)
  from s1 have a1: "Frequency sch1 = Frequency sch0" "TimeZone sch1 = TimeZone sch0"
    "DayOfMonth sch1 = DayOfMonth sch0" "WorkdaysOnly sch1 = WorkdaysOnly sch0"
    by (auto simp: setStartDate_def split: if_splits option.splits)
  from s2 have a2: "Frequency sch2 = Frequency sch1" "TimeZone sch2 = TimeZone sch1"
    "DayOfMonth sch2 = DayOfMonth sch1" "WorkdaysOnly sch2 = WorkdaysOnly sch1"
    by (auto simp: setEndDate_def split: if_splits option.splits)
  let ?m = "setWorkdaysOnly (setDayOfMonth sch2 d) d"
  from s3 have a3: "Frequency sch3 = Frequency ?m" "TimeZone sch3 = TimeZone ?m"
    "DayOfMonth sch3 = DayOfMonth ?m" "WorkdaysOnly sch3 = WorkdaysOnly ?m"
    by (auto simp: setInterval_def split: if_splits sum.splits)
  have "Frequency sch3 = Frequency sch0" "TimeZone sch3 = TimeZone sch0"
    "DayOfMonth sch3 =
       (if Frequency sch0 = reportFrequencyMonthly \<and> last_day_of_month (schedule d)
        then ''last'' else DayOfMonth sch0)"
    "WorkdaysOnly sch3 =
       (if reportWorkdaysOnlyConfigAllowed (Frequency sch0) then workdays_only (schedule d)
        else WorkdaysOnly sch0)"
    by (auto simp: a1 a2 a3 setWorkdaysOnly_def setDayOfMonth_def)
  with s0 r show ?thesis by blast
qed

lemma schemaToReportParams_schedule:
  assumes "schemaToReportParams p d = Ok report"
  shows "\<exists>sch. Schedule report = Some sch
           \<and> Frequency sch = frequency (schedule d)
           \<and> TimeZone sch = timezone (schedule d)
           \<and> DayOfMonth sch =
               (if frequency (schedule d) = reportFrequencyMonthly \<and> last_day_of_month (schedule d)
                then ''last'' else [])
           \<and> WorkdaysOnly sch =
               (if reportWorkdaysOnlyConfigAllowed (frequency (schedule d))
                then workdays_only (schedule d) else False)"
proof -
  from schemaToReportParams_steps [OF assms] obtain report2
    where fin: "setReportFrequency p report2 d = Ok report"
      and sch: "Schedule report2 = Schedule (createReportSchema d)"
    by blast
  from setReportFrequency_Ok [OF fin] sch show ?thesis
    by (auto simp: createReportSchema_def)
qed

lemma schemaToReportParams_rest:
  assumes "schemaToReportParams p d = Ok report"
  shows "Formats report = (if formats d = [] then [reportFormatPDF] else [])"
    and "dashboards d \<noteq> [] \<Longrightarrow> Dashboards report = []"
proof -
  from schemaToReportParams_steps [OF assms] obtain report2
    where fin: "setReportFrequency p report2 d = Ok report"
      and f: "Formats report2 = (if formats d = [] then [reportFormatPDF] else [])"
      and ds: "dashboards d \<noteq> [] \<longrightarrow> Dashboards report2 = []"
    by blast
  from setReportFrequency_Ok [OF fin] obtain sch' where r: "report = report2\<lparr>Schedule := Some sch'\<rparr>"
    by blast
  show "Formats report = (if formats d = [] then [reportFormatPDF] else [])"
    using f r by simp
  show "dashboards d \<noteq> [] \<Longrightarrow> Dashboards report = []"
    using ds r by simp
qed


lemma last_day_of_month_forward:
  assumes "schemaToReportParams p d = Ok report"
  shows "(map_option DayOfMonth (Schedule report) = Some ''last'')
           = (frequency (schedule d) = ''monthly'' \<and> last_day_of_month (schedule d))"
  using schemaToReportParams_schedule [OF assms]
  by (auto simp: reportFrequency_defs split: if_splits)

section \<open>Unfolding rules for evaluation\<close>

lemmas atoi_eval = Atoi_def signedValue_def inIntRange_def isDigit_def digitsVal_def digitVal_def

lemmas forward_defs = schemaToReportParams_def createReportSchema_def
  setDeprecatedDashboardValues_def setReportFrequency_def setStartDate_def setEndDate_def
  setDayOfMonth_def setWorkdaysOnly_def setInterval_def reportWorkdaysOnlyConfigAllowed_def
  reportFrequency_defs reportFormatPDF_def

lemmas report_defs = multipleDashboardsReport_def legacyReport_def noDashboardReport_def
  onceReport_def hourlyReport_def customReport_def existingReport_def platform64_def
  zeroTime_def

lemmas rfc3339_defs = parseRFC3339_def calendarDate_def clockTime_def fraction_def
  zoneOffset_def isDigit_def digitVal_def digitsVal_def daysIn_def isLeap_def
  daysBeforeYear_def daysBeforeMonth_def

section \<open>The concrete runs, evaluated\<close>

lemma multipleDashboardsReport_command:
  "schemaToReportParams platform64 multipleDashboardsReport = Ok multipleDashboardsCommand"
  by (simp add: forward_defs report_defs multipleDashboardsCommand_def)

lemma noDashboardReport_error:
  "schemaToReportParams platform64 noDashboardReport
     = Err (Errorf ''dashboard_id or dashboard_uid should be set'')"
  by (simp add: forward_defs report_defs)

lemma customReport_error:
  "schemaToReportParams platform64 customReport = Err parseErr"
  by (simp add: forward_defs report_defs parseCustomReportInterval_def)

lemma formatDateTime_zero: "formatDateTime 0 = ''0001-01-01T00:00:00.000Z''"
  by code_simp

lemma parseRFC3339_zero: "parseRFC3339 ''0001-01-01T00:00:00.000Z'' = Some 0"
  by (simp add: rfc3339_defs)

lemma parseRFC3339_zero_short: "parseRFC3339 ''0001-01-01T00:00:00Z'' = Some 0"
  by (simp add: rfc3339_defs)

lemma parseRFC3339_empty: "parseRFC3339 [] = None"
  by (simp add: parseRFC3339_def calendarDate_def)

lemma parseRFC3339_2020: "parseRFC3339 ''2020-01-01T00:00:00Z'' = Some 63713433600000000000"
  by (simp add: rfc3339_defs)

lemma parseRFC3339_2020_offset:
  "parseRFC3339 ''2020-01-01T01:00:00+01:00'' = Some 63713433600000000000"
  by (simp add: rfc3339_defs)

lemma existingReport_id:
  "ParseInt (snd (splitOrgResourceID exampleClient (Id existingReport))) = Some 7"
  by (simp add: exampleClient_def report_defs ParseInt_def atoi_eval)

lemma storedSchedule_attrs:
  "scheduleAttrs platform64
     \<lparr> Frequency = ''monthly'', TimeZone = ''America/Los_Angeles'',
       StartDate = 0, EndDate = 0, DayOfMonth = ''last'',
       WorkdaysOnly = False, IntervalAmount = 0, IntervalFrequency = [] \<rparr>
   = Inr [(''timezone'', AString ''America/Los_Angeles''),
          (''frequency'', AString ''monthly''),
          (''workdays_only'', ABool False),
          (''start_time'', ATime 0),
          (''end_time'', ATime 0),
          (''last_day_of_month'', ABool True)]"
  by (simp add: scheduleAttrs_def timeAttr_def scheduleBase_def customIntervalAttr_def
      lastDayAttr_def platform64_def formatDateTime_zero parseRFC3339_zero)

lemma existingReport_read:
  "\<exists>i sets. ReadReport exampleClient platform64 existingReport = (Ok (i, sets), [GetReportCall 7])"
  using existingReport_id
  by (simp add: ReadReport_def readPayload_def exampleClient_def storedReport_def
      storedSchedule_attrs zeroTime_def)

section \<open>Properties of the read path\<close>

lemma ReadReport_Ok:
  assumes "ReadReport cl p d = (Ok x, calls)"
  shows "\<exists>id' r. ParseInt (snd (splitOrgResourceID cl (Id d))) = Some id'
           \<and> Reports_GetReport cl id' = Inr r
           \<and> readPayload cl p d id' r = Ok x
           \<and> calls = [GetReportCall id']"
  using assms by (auto simp: ReadReport_def split: option.splits sum.splits)

lemma readPayload_Ok:
  assumes "readPayload cl p d id' r = Ok (i, sets)"
  shows "\<exists>d0 rest db tr sch m.
           Dashboards r = Some d0 # rest \<and> Dashboard d0 = Some db \<and> TimeRange d0 = Some tr
           \<and> Schedule r = Some sch \<and> scheduleAttrs p sch = Inr m
           \<and> map_of sets ''dashboard_id'' = Some (AInt (ID db))
           \<and> map_of sets ''dashboard_uid'' = Some (AString (UID db))
           \<and> map_of sets ''time_range''
               = (if From tr \<noteq> []
                  then Some (ABlocks [[(''from'', AString (From tr)), (''to'', AString (To tr))]])
                  else None)
           \<and> map_of sets ''schedule''
               = (if blockAccepts scheduleSchema m then Some (ABlocks [m]) else None)"
proof -
  from assms obtain d0 rest db opts tr sch m
    where "Dashboards r = Some d0 # rest" "Dashboard d0 = Some db" "Options r = Some opts"
      "TimeRange d0 = Some tr" "Schedule r = Some sch" "scheduleAttrs p sch = Inr m"
    by (auto simp: readPayload_def split: list.splits option.splits sum.splits)
  moreover from this assms have
    "sets = filter (stored reportSchema)
            ([(''dashboard_id'', AInt (ID db)),
              (''dashboard_uid'', AString (UID db)),
              (''name'', AString (Name r)),
              (''recipients'', AStrings (strings_Split CHR '','' (Recipients r))),
              (''reply_to'', AString (ReplyTo r)),
              (''message'', AString (Message r)),
              (''include_dashboard_link'', ABool (EnableDashboardURL r)),
              (''include_table_csv'', ABool (EnableCSV r)),
              (''layout'', AString (Layout opts)),
              (''orientation'', AString (Orientation opts)),
              (''org_id'', AString (formatInt (OrgID r))),
              (''state'', AString (State r)),
              (''scale_factor'', AInt (ScaleFactor r))]
             @ (if formats d \<noteq> [] then [(''formats'', AStrings (Formats r))] else [])
             @ (if From tr \<noteq> []
                then [(''time_range'',
                       ABlocks [[(''from'', AString (From tr)), (''to'', AString (To tr))]])]
                else [])
             @ [(''schedule'', ABlocks [m])])"
    by (simp add: readPayload_def)
  moreover from this have
    "map_of sets ''dashboard_id'' = Some (AInt (ID db))"
    "map_of sets ''dashboard_uid'' = Some (AString (UID db))"
    "map_of sets ''time_range''
       = (if From tr \<noteq> []
          then Some (ABlocks [[(''from'', AString (From tr)), (''to'', AString (To tr))]])
          else None)"
    "map_of sets ''schedule''
       = (if blockAccepts scheduleSchema m then Some (ABlocks [m]) else None)"
    by (simp_all add: stored_def reportSchema_def timeRangeSchema_def blockAccepts_def)
  ultimately show ?thesis by blast
qed

lemma timeAttr_keys: "timeAttr p key t = Inr kv \<Longrightarrow> kv = [] \<or> (\<exists>t'. kv = [(key, ATime t')])"
  by (auto simp: timeAttr_def split: if_splits option.splits)

lemma scheduleAttrs_Ok:
  assumes "scheduleAttrs p sch = Inr m"
  shows "(map_of m ''last_day_of_month'' = Some (ABool True)) = (DayOfMonth sch = ''last'')"
    and "map_of m ''custom_interval''
           = (if IntervalAmount sch \<noteq> 0 \<and> IntervalFrequency sch \<noteq> []
              then Some (AString (formatCustomInterval (IntervalAmount sch) (IntervalFrequency sch)))
              else None)"
proof -
  from assms obtain st en where st: "timeAttr p ''start_time'' (StartDate sch) = Inr st"
    and en: "timeAttr p ''end_time'' (EndDate sch) = Inr en"
    and m: "m = scheduleBase sch @ customIntervalAttr sch @ st @ en @ lastDayAttr sch"
    by (auto simp: scheduleAttrs_def split: sum.splits)
  from timeAttr_keys [OF st] timeAttr_keys [OF en]
  show "(map_of m ''last_day_of_month'' = Some (ABool True)) = (DayOfMonth sch = ''last'')"
    by (auto simp: m scheduleBase_def customIntervalAttr_def lastDayAttr_def)
  from timeAttr_keys [OF st] timeAttr_keys [OF en]
  show "map_of m ''custom_interval''
           = (if IntervalAmount sch \<noteq> 0 \<and> IntervalFrequency sch \<noteq> []
              then Some (AString (formatCustomInterval (IntervalAmount sch) (IntervalFrequency sch)))
              else None)"
    by (auto simp: m scheduleBase_def customIntervalAttr_def lastDayAttr_def)
qed


text \<open>
  A rendered date is never empty, so the map handed to \<^verbatim>\<open>d.Set("schedule", ...)\<close> holds
  a \<^verbatim>\<open>time.Time\<close> under \<^verbatim>\<open>start_time\<close> and \<^verbatim>\<open>end_time\<close>, attributes of type string: the
  block is refused and nothing of the schedule is stored.
\<close>

lemma scheduleAttrs_refused:
  assumes "scheduleAttrs p sch = Inr m"
    and "dateTimeString p (StartDate sch) \<noteq> [] \<or> dateTimeString p (EndDate sch) \<noteq> []"
  shows "\<not> blockAccepts scheduleSchema m"
proof -
  from assms(1) obtain st en where st: "timeAttr p ''start_time'' (StartDate sch) = Inr st"
    and en: "timeAttr p ''end_time'' (EndDate sch) = Inr en"
    and m: "m = scheduleBase sch @ customIntervalAttr sch @ st @ en @ lastDayAttr sch"
    by (auto simp: scheduleAttrs_def split: sum.splits)
  from assms(2) st en have "(\<exists>t. st = [(''start_time'', ATime t)]) \<or> (\<exists>t. en = [(''end_time'', ATime t)])"
    by (auto simp: timeAttr_def split: if_splits option.splits)
  then show ?thesis
    by (auto simp: m blockAccepts_def scheduleSchema_def)
qed

lemma ReadReport_schedule_not_stored:
  assumes "ReadReport cl p d = (Ok (i, sets), calls)"
    and "\<And>t. dateTimeString p t \<noteq> []"
  shows "map_of sets ''schedule'' = None"
proof -
  from ReadReport_Ok [OF assms(1)] obtain id' r where "readPayload cl p d id' r = Ok (i, sets)"
    by blast
  from readPayload_Ok [OF this] obtain sch m where m: "scheduleAttrs p sch = Inr m"
    and s: "map_of sets ''schedule''
              = (if blockAccepts scheduleSchema m then Some (ABlocks [m]) else None)"
    by blast
  from scheduleAttrs_refused [OF m] assms(2) have "\<not> blockAccepts scheduleSchema m" by blast
  with s show ?thesis by simp
qed

section \<open>Properties of the operations that write\<close>

lemma CreateReport_sends_without_command:
  assumes "schemaToReportParams p d = Err e"
  shows "\<exists>rest. snd (CreateReport cl p d) = CreateReportCall None # rest"
  using assms by (auto simp: CreateReport_def Let_def split: sum.splits)

lemma UpdateReport_returns_error:
  assumes "schemaToReportParams p d = Err e"
    and "ParseInt (snd (splitOrgResourceID cl (Id d))) = Some id'"
  shows "UpdateReport cl p d = (Err e, [])"
  using assms by (simp add: UpdateReport_def)

section \<open>The claims\<close>

text \<open>
  Claim C1. With a non-empty \<^verbatim>\<open>dashboards\<close> list, the wire command is to carry the list:
  one binding for each item, in the order of the list. The source leaves the branch for a
  non-empty list empty. For the example report with two \<^verbatim>\<open>dashboards\<close> blocks,
  \<open>schemaToReportParams\<close> returns a command with no dashboard binding at all, also when
  \<^verbatim>\<open>dashboard_uid\<close> is declared beside the list; the day of the month is \<^verbatim>\<open>last\<close> and
  the time zone is that of Los Angeles, as the claim has it.
\<close>

theorem dashboards_list_not_sent:
  "length (dashboards multipleDashboardsReport) = 2
   \<and> schemaToReportParams platform64 multipleDashboardsReport = Ok multipleDashboardsCommand
   \<and> schemaToReportParams platform64 (multipleDashboardsReport\<lparr> dashboard_uid := ''report'' \<rparr>)
       = Ok multipleDashboardsCommand
   \<and> Dashboards multipleDashboardsCommand = []
   \<and> map_option DayOfMonth (Schedule multipleDashboardsCommand) = Some ''last''
   \<and> map_option TimeZone (Schedule multipleDashboardsCommand) = Some ''America/Los_Angeles''"
proof -
  have "schemaToReportParams platform64 (multipleDashboardsReport\<lparr> dashboard_uid := ''report'' \<rparr>)
          = Ok multipleDashboardsCommand"
    by (simp add: forward_defs report_defs multipleDashboardsCommand_def)
  with multipleDashboardsReport_command show ?thesis
    by (simp add: multipleDashboardsReport_def multipleDashboardsCommand_def)
qed

text \<open>
  Claim C2, as amended. For a schedule whose frequency is \<^verbatim>\<open>once\<close> or \<^verbatim>\<open>never\<close>,
  \<open>setReportFrequency\<close> never looks at \<^verbatim>\<open>end_time\<close>: its result is the same whatever
  the end time declared, so no error is returned on account of it, and when it succeeds the
  end date of the wire schedule is the one it started from.
\<close>

theorem end_time_ignored_for_once_and_never:
  assumes "Schedule report = Some sch"
    and "Frequency sch = ''once'' \<or> Frequency sch = ''never''"
  shows "setReportFrequency p report (d\<lparr> schedule := (schedule d)\<lparr> end_time := e \<rparr> \<rparr>)
           = setReportFrequency p report d
         \<and> (\<forall>report'. setReportFrequency p report d = Ok report' \<longrightarrow>
               map_option EndDate (Schedule report') = Some (EndDate sch))"
proof -
  let ?d = "d\<lparr> schedule := (schedule d)\<lparr> end_time := e \<rparr> \<rparr>"
  have skip: "setEndDate p s x = Inr s" if "Frequency s = Frequency sch" for s x
    using assms(2) that by (auto simp: setEndDate_def reportFrequency_defs)
  have start: "Frequency s' = Frequency sch \<and> EndDate s' = EndDate sch"
    if "setStartDate p sch d = Inr s'" for s'
    using that by (auto simp: setStartDate_def split: if_splits option.splits)
  have d_start: "setStartDate p sch ?d = setStartDate p sch d"
    by (simp add: setStartDate_def split: option.splits)
  have d_rest: "setInterval p (setWorkdaysOnly (setDayOfMonth s ?d) ?d) ?d
                  = setInterval p (setWorkdaysOnly (setDayOfMonth s d) d) d" for s
  proof -
    have dm: "setDayOfMonth x ?d = setDayOfMonth x d" for x
      by (simp add: setDayOfMonth_def)
    have wk: "setWorkdaysOnly x ?d = setWorkdaysOnly x d" for x
      by (simp add: setWorkdaysOnly_def)
    have iv: "setInterval p x ?d = setInterval p x d" for x
      by (simp add: setInterval_def)
    show ?thesis by (simp only: dm wk iv)
  qed
  show ?thesis
  proof (cases "setStartDate p sch d")
    case (Inl err)
    then show ?thesis
      by (simp add: setReportFrequency_def assms(1) d_start)
  next
    case (Inr s1)
    from start [OF Inr] have f: "Frequency s1 = Frequency sch" and e: "EndDate s1 = EndDate sch"
      by simp_all
    have run: "setReportFrequency p report x
                 = (case setInterval p (setWorkdaysOnly (setDayOfMonth s1 x) x) x of
                      Inl err \<Rightarrow> Err err
                    | Inr s3 \<Rightarrow> Ok (report\<lparr>Schedule := Some s3\<rparr>))"
      if "setStartDate p sch x = Inr s1" for x
      using that by (simp add: setReportFrequency_def assms(1) skip [OF f])
    have same: "setReportFrequency p report ?d = setReportFrequency p report d"
      using run [of d] run [of ?d] Inr d_start by (simp only: d_rest)
    have "map_option EndDate (Schedule report') = Some (EndDate sch)"
      if ok: "setReportFrequency p report d = Ok report'" for report'
    proof -
      from ok run [OF Inr] obtain s3
        where s3: "setInterval p (setWorkdaysOnly (setDayOfMonth s1 d) d) d = Inr s3"
          and r: "report' = report\<lparr>Schedule := Some s3\<rparr>"
        by (auto split: sum.splits)
      from s3 have "EndDate s3 = EndDate s1"
        by (auto simp: setInterval_def setWorkdaysOnly_def setDayOfMonth_def
            split: if_splits sum.splits)
      with e r show ?thesis by simp
    qed
    with same show ?thesis by blast
  qed
qed

theorem end_time_ignored_for_once_and_never_witness:
  "Schedule (createReportSchema onceReport)
     = Some \<lparr> Frequency = ''once'', TimeZone = ''GMT'', StartDate = 0, EndDate = 0,
              DayOfMonth = [], WorkdaysOnly = False, IntervalAmount = 0, IntervalFrequency = [] \<rparr>
   \<and> setReportFrequency platform64 (createReportSchema onceReport)
        (onceReport\<lparr> schedule := (schedule onceReport)\<lparr> end_time := [] \<rparr> \<rparr>)
       = setReportFrequency platform64 (createReportSchema onceReport) onceReport"
proof -
  have s: "Schedule (createReportSchema onceReport)
     = Some \<lparr> Frequency = ''once'', TimeZone = ''GMT'', StartDate = 0, EndDate = 0,
              DayOfMonth = [], WorkdaysOnly = False, IntervalAmount = 0, IntervalFrequency = [] \<rparr>"
    by (simp add: createReportSchema_def report_defs)
  from end_time_ignored_for_once_and_never [OF s, where p = platform64 and d = onceReport and e = "[]"] s
  show ?thesis by simp
qed

text \<open>
  Claim C2 as it stands asks for an error. A report sent once with an end time declared is
  translated without error, and the end date of the command stays at its zero value.
\<close>

theorem end_time_silently_dropped_counterexample:
  "frequency (schedule onceReport) = ''once''
   \<and> end_time (schedule onceReport) = ''2030-01-01T00:00:00Z''
   \<and> setReportFrequency platform64 (createReportSchema onceReport) onceReport
       = Ok (createReportSchema onceReport)
   \<and> map_option EndDate (Schedule (createReportSchema onceReport)) = Some zeroTime"
  by (simp add: forward_defs report_defs)

text \<open>
  Claim C3. A configuration on which the command cannot be built is to stop every writing
  operation before the network is touched. \<open>UpdateReport\<close> does so
  (\<open>UpdateReport_returns_error\<close>). \<open>CreateReport\<close> does not: for a custom frequency
  without an interval, and for a configuration that names no dashboard, the command is not
  built, the create request is sent all the same, without a body, and the caller receives
  the answer of the server instead of the validation error.
\<close>

theorem CreateReport_sends_after_validation_error:
  "schemaToReportParams platform64 customReport = Err parseErr
   \<and> CreateReport exampleClient platform64 customReport
       = (Err (RemoteError ''bad request''), [CreateReportCall None])
   \<and> schemaToReportParams platform64 noDashboardReport
       = Err (Errorf ''dashboard_id or dashboard_uid should be set'')
   \<and> CreateReport exampleClient platform64 noDashboardReport
       = (Err (RemoteError ''bad request''), [CreateReportCall None])"
  using noDashboardReport_error customReport_error
  by (simp add: CreateReport_def exampleClient_def)

text \<open>
  Claim C4, as amended. For a unit among \<^verbatim>\<open>hours\<close>, \<^verbatim>\<open>days\<close>, \<^verbatim>\<open>weeks\<close>, \<^verbatim>\<open>months\<close> and
  a number \<open>n \<ge> 0\<close> that fits \<^verbatim>\<open>int\<close>, written in decimal without sign or leading
  zeros: parsing \<^verbatim>\<open><n> <unit>\<close> gives \<open>n\<close> and the unit, and formatting them with the
  \<^verbatim>\<open>Sprintf("%d %s", ...)\<close> of the read path gives the string back.
\<close>

theorem custom_interval_roundtrip:
  assumes "u \<in> {''hours'', ''days'', ''weeks'', ''months''}"
    and "int n < 2 ^ (bits b - 1)"
  shows "parseCustomReportInterval b (formatNat n @ '' '' @ u) = Inr (int n, u)
         \<and> formatCustomInterval (int n) u = formatNat n @ '' '' @ u"
proof -
  have "CHR '' '' \<notin> set (formatNat n)"
    using formatNat_digits [of n] isDigit_not_sign by (auto simp: list_all_iff)
  moreover have "CHR '' '' \<notin> set u" using assms(1) by (rule units_no_space)
  ultimately have "strings_Split CHR '' '' (formatNat n @ '' '' @ u) = [formatNat n, u]"
    by (subst strings_Split_takeWhile)
       (simp add: takeWhile_append1 dropWhile_append strings_Split_no_sep takeWhile_eq_all_conv
          dropWhile_eq_Nil_conv)
  then have parse: "parseCustomReportInterval b (formatNat n @ '' '' @ u) = Inr (int n, u)"
    using assms by (auto simp: parseCustomReportInterval_def Atoi_formatNat)
  have fmt: "formatCustomInterval (int n) u = formatNat n @ '' '' @ u"
    by (simp add: formatCustomInterval_def formatInt_def)
  with parse show ?thesis by simp
qed

theorem custom_interval_roundtrip_witness:
  "''days'' \<in> {''hours'', ''days'', ''weeks'', ''months''}
   \<and> int 3 < 2 ^ (bits Bits64 - 1)
   \<and> int 0 < 2 ^ (bits Bits64 - 1)
   \<and> parseCustomReportInterval Bits64 ''3 days'' = Inr (3, ''days'')
   \<and> formatCustomInterval 3 ''days'' = ''3 days''
   \<and> parseCustomReportInterval Bits64 ''0 days'' = Inr (0, ''days'')
   \<and> formatCustomInterval 0 ''days'' = ''0 days''"
proof -
  have f: "formatNat 3 = ''3''" "formatNat 0 = ''0''" by code_simp+
  show ?thesis
    using custom_interval_roundtrip [of "''days''" 3 Bits64]
      custom_interval_roundtrip [of "''days''" 0 Bits64]
    by (simp add: f)
qed

text \<open>
  Claim C4 as it stands covers every \<open>n \<ge> 0\<close> and every string the parser takes. The
  amount \<open>2 ^ 63\<close> does not fit \<^verbatim>\<open>int\<close> and is refused by the parser; \<^verbatim>\<open>007 days\<close> is
  taken, with \<open>n = 7\<close>, and comes back as \<^verbatim>\<open>7 days\<close>.
\<close>

theorem interval_roundtrip_counterexample:
  "parseCustomReportInterval Bits64 ''9223372036854775808 days'' = Inl parseErr
   \<and> parseCustomReportInterval Bits64 ''007 days'' = Inr (7, ''days'')
   \<and> formatCustomInterval 7 ''days'' = ''7 days''
   \<and> ''7 days'' \<noteq> ''007 days''"
proof -
  have "formatCustomInterval 7 ''days'' = ''7 days''" by code_simp
  then show ?thesis
    by (simp add: parseCustomReportInterval_def atoi_eval)
qed

text \<open>
  Claim C5, as amended. \<open>parseCustomReportInterval\<close> is total and has one error. It
  accepts exactly the strings made of an amount, one space and a unit, where the amount is
  an optional sign followed by one or more decimal digits with a value that fits \<^verbatim>\<open>int\<close>,
  and the unit is one of \<^verbatim>\<open>hours\<close>, \<^verbatim>\<open>days\<close>, \<^verbatim>\<open>weeks\<close>, \<^verbatim>\<open>months\<close>; it then returns
  the signed value and the unit. Every other string gives the grammar error.
\<close>

theorem parseCustomReportInterval_grammar:
  "parseCustomReportInterval b s =
     (if intervalGrammar b s then Inr (signedValue (amountToken s), unitToken s) else Inl parseErr)"
proof (cases "dropWhile (\<lambda>c. c \<noteq> CHR '' '') s")
  case Nil
  have "strings_Split CHR '' '' s = [amountToken s]"
    by (subst strings_Split_takeWhile) (simp only: Nil amountToken_def list.case)
  moreover have "\<not> intervalGrammar b s"
    by (simp only: intervalGrammar_def Nil) simp
  ultimately show ?thesis
    by (simp add: parseCustomReportInterval_def)
next
  case (Cons c r)
  have split: "strings_Split CHR '' '' s = amountToken s # strings_Split CHR '' '' r"
    by (subst strings_Split_takeWhile) (simp only: Cons amountToken_def list.case)
  have u: "unitToken s = r" by (simp only: unitToken_def Cons) simp
  have nonempty: "dropWhile (\<lambda>c. c \<noteq> CHR '' '') s \<noteq> []" by (simp only: Cons) simp
  show ?thesis
  proof (cases "CHR '' '' \<in> set r")
    case True
    then obtain x y zs where "strings_Split CHR '' '' r = x # y # zs"
      using strings_Split_sep by blast
    with split have "parseCustomReportInterval b s = Inl parseErr"
      by (simp add: parseCustomReportInterval_def)
    moreover from True u have "\<not> intervalGrammar b s"
      using units_no_space [of r] by (auto simp: intervalGrammar_def)
    ultimately show ?thesis by simp
  next
    case False
    with split have "strings_Split CHR '' '' s = [amountToken s, r]"
      by (simp add: strings_Split_no_sep)
    then show ?thesis using nonempty u
      by (simp only: parseCustomReportInterval_def intervalGrammar_def Atoi_grammar) auto
  qed
qed

theorem parseCustomReportInterval_grammar_witness:
  "parseCustomReportInterval Bits64 ''3 days'' = Inr (3, ''days'')
   \<and> parseCustomReportInterval Bits64 ''3  days'' = Inl parseErr
   \<and> parseCustomReportInterval Bits64 ''3 Days'' = Inl parseErr
   \<and> parseCustomReportInterval Bits64 ''three days'' = Inl parseErr"
  using parseCustomReportInterval_grammar [of Bits64 "''3 days''"]
    parseCustomReportInterval_grammar [of Bits64 "''3  days''"]
    parseCustomReportInterval_grammar [of Bits64 "''3 Days''"]
    parseCustomReportInterval_grammar [of Bits64 "''three days''"]
  by (simp add: intervalGrammar_def amountToken_def unitToken_def atoi_eval)

text \<open>
  Claim C5 as it stands takes an amount that is not a non-negative integer for malformed,
  and lets the parser fail on malformed strings only. The amount \<^verbatim>\<open>-5\<close> is accepted, and
  the non-negative amount \<open>2 ^ 63\<close> is refused.
\<close>

theorem negative_amount_accepted_counterexample:
  "parseCustomReportInterval Bits64 ''-5 days'' = Inr (- 5, ''days'')
   \<and> parseCustomReportInterval Bits64 ''9223372036854775808 days'' = Inl parseErr"
  by (simp add: parseCustomReportInterval_def atoi_eval)


text \<open>
  Claim C7. When the forward translation succeeds, \<^verbatim>\<open>WorkdaysOnly\<close> of the wire schedule is
  the declared flag for the frequencies \<^verbatim>\<open>hourly\<close>, \<^verbatim>\<open>daily\<close> and \<^verbatim>\<open>custom\<close>, and is left
  unset (false) for every other frequency, whatever the flag.
\<close>

theorem workdays_only_by_frequency:
  "schemaToReportParams p d = Ok report \<Longrightarrow>
     map_option WorkdaysOnly (Schedule report) =
       Some (if frequency (schedule d) \<in> {''hourly'', ''daily'', ''custom''}
             then workdays_only (schedule d) else False)"
  using schemaToReportParams_schedule [of p d report]
  by (auto simp: reportWorkdaysOnlyConfigAllowed_def reportFrequency_defs)

theorem workdays_only_by_frequency_witness:
  "(case schemaToReportParams platform64 hourlyReport of
      Ok r \<Rightarrow> map_option WorkdaysOnly (Schedule r) = Some True
    | _ \<Rightarrow> False)
   \<and> (case schemaToReportParams platform64
              (multipleDashboardsReport\<lparr> schedule :=
                 (schedule multipleDashboardsReport)\<lparr> workdays_only := True \<rparr> \<rparr>) of
         Ok r \<Rightarrow> map_option WorkdaysOnly (Schedule r) = Some False
       | _ \<Rightarrow> False)"
proof -
  let ?m = "multipleDashboardsReport\<lparr> schedule :=
              (schedule multipleDashboardsReport)\<lparr> workdays_only := True \<rparr> \<rparr>"
  obtain r where r: "schemaToReportParams platform64 hourlyReport = Ok r"
    by (simp add: forward_defs report_defs)
  obtain r' where r': "schemaToReportParams platform64 ?m = Ok r'"
    by (simp add: forward_defs report_defs)
  from workdays_only_by_frequency [OF r]
  have "map_option WorkdaysOnly (Schedule r) = Some True"
    by (simp add: report_defs)
  moreover from workdays_only_by_frequency [OF r']
  have "map_option WorkdaysOnly (Schedule r') = Some False"
    by (simp add: report_defs)
  ultimately show ?thesis using r r' by simp
qed

text \<open>
  Claim C8, as amended. Both functions read a value as its RFC 3339 instant, and as the zero
  instant \<^verbatim>\<open>0001-01-01T00:00:00Z\<close> when it does not parse (the empty string does not). For
  start times, an empty declared value is equivalent to every stored value read as an
  instant strictly before now, and otherwise two values are equivalent exactly when the
  instants read are equal; for two values that parse, when they denote the same instant.
  For end times there is no special case: two values are equivalent exactly when the
  instants read are equal, so an empty declared end time is equivalent to a stored one that
  does not parse or that denotes the zero instant.
\<close>

theorem diffSuppress_compares_instants:
  assumes "timeParse p [] = None"
  shows "(timeParse p old = Some a \<and> a < now \<longrightarrow> startTimeDiffSuppress p now old [])
         \<and> (timeParse p old = Some a \<and> timeParse p new = Some b \<longrightarrow>
              startTimeDiffSuppress p now old new = (a = b)
              \<and> endTimeDiffSuppress p old new = (a = b))
         \<and> startTimeDiffSuppress p now old new
             = (new = [] \<and> parseOrZero (timeParse p) old < now
                \<or> parseOrZero (timeParse p) old = parseOrZero (timeParse p) new)
         \<and> endTimeDiffSuppress p old new
             = (parseOrZero (timeParse p) old = parseOrZero (timeParse p) new)
         \<and> endTimeDiffSuppress p old []
             = (timeParse p old = None \<or> timeParse p old = Some zeroTime)"
proof -
  have start: "startTimeDiffSuppress p now old new
                 = (new = [] \<and> parseOrZero (timeParse p) old < now
                    \<or> parseOrZero (timeParse p) old = parseOrZero (timeParse p) new)"
    by (auto simp: startTimeDiffSuppress_def Let_def)
  have en: "endTimeDiffSuppress p old new
              = (parseOrZero (timeParse p) old = parseOrZero (timeParse p) new)"
    by (simp add: endTimeDiffSuppress_def Let_def)
  have past: "startTimeDiffSuppress p now old []" if "timeParse p old = Some a" "a < now"
    using that by (simp add: startTimeDiffSuppress_def parseOrZero_def)
  have both: "startTimeDiffSuppress p now old new = (a = b) \<and> endTimeDiffSuppress p old new = (a = b)"
    if "timeParse p old = Some a" "timeParse p new = Some b"
  proof -
    from that(2) assms have "new \<noteq> []" by auto
    with that show ?thesis
      by (simp add: startTimeDiffSuppress_def endTimeDiffSuppress_def parseOrZero_def)
  qed
  have empty: "endTimeDiffSuppress p old [] = (timeParse p old = None \<or> timeParse p old = Some zeroTime)"
    using assms by (auto simp: endTimeDiffSuppress_def parseOrZero_def split: option.splits)
  from start en past both empty show ?thesis by blast
qed

theorem diffSuppress_compares_instants_witness:
  "timeParse platform64 [] = None
   \<and> startTimeDiffSuppress platform64 63713433600000000001 ''2020-01-01T00:00:00Z'' []
   \<and> startTimeDiffSuppress platform64 0 ''2020-01-01T00:00:00Z'' ''2020-01-01T01:00:00+01:00''
   \<and> endTimeDiffSuppress platform64 ''2020-01-01T00:00:00Z'' ''2020-01-01T01:00:00+01:00''
   \<and> \<not> endTimeDiffSuppress platform64 ''2020-01-01T00:00:00Z'' []"
proof -
  have e: "timeParse platform64 [] = None"
    by (simp add: platform64_def parseRFC3339_empty)
  have o: "timeParse platform64 ''2020-01-01T00:00:00Z'' = Some 63713433600000000000"
    by (simp add: platform64_def parseRFC3339_2020)
  have n: "timeParse platform64 ''2020-01-01T01:00:00+01:00'' = Some 63713433600000000000"
    by (simp add: platform64_def parseRFC3339_2020_offset)
  from diffSuppress_compares_instants
         [OF e, of "''2020-01-01T00:00:00Z''" 63713433600000000000 63713433600000000001
            "''2020-01-01T01:00:00+01:00''" 63713433600000000000] o n
  have "startTimeDiffSuppress platform64 63713433600000000001 ''2020-01-01T00:00:00Z'' []"
    and "endTimeDiffSuppress platform64 ''2020-01-01T00:00:00Z'' ''2020-01-01T01:00:00+01:00''"
    and "\<not> endTimeDiffSuppress platform64 ''2020-01-01T00:00:00Z'' []"
    by (simp_all add: zeroTime_def)
  moreover from diffSuppress_compares_instants
         [OF e, of "''2020-01-01T00:00:00Z''" 63713433600000000000 0
            "''2020-01-01T01:00:00+01:00''" 63713433600000000000] o n
  have "startTimeDiffSuppress platform64 0 ''2020-01-01T00:00:00Z'' ''2020-01-01T01:00:00+01:00''"
    by simp
  ultimately show ?thesis using e by simp
qed

text \<open>
  Claim C8 as it stands lets an empty declared end time be equivalent to an empty stored
  end time only. It is equivalent to the stored end time \<^verbatim>\<open>0001-01-01T00:00:00Z\<close> as well.
\<close>

theorem empty_end_time_equals_zero_instant_counterexample:
  "endTimeDiffSuppress platform64 ''0001-01-01T00:00:00Z'' []
   \<and> ''0001-01-01T00:00:00Z'' \<noteq> []"
  by (simp add: endTimeDiffSuppress_def parseOrZero_def platform64_def parseRFC3339_zero_short
      parseRFC3339_empty zeroTime_def)

text \<open>
  Claim C9. When the forward translation succeeds, the formats of the command are
  \<^verbatim>\<open>pdf\<close> alone if no format is declared, and are left unset if any format is declared:
  the declared formats are not copied.
\<close>

theorem formats_never_copied:
  "schemaToReportParams p d = Ok report \<Longrightarrow>
     Formats report = (if formats d = [] then [''pdf''] else [])"
  using schemaToReportParams_rest(1) [of p d report] by (simp add: reportFormatPDF_def)

theorem formats_never_copied_witness:
  "schemaToReportParams platform64 multipleDashboardsReport = Ok multipleDashboardsCommand
   \<and> formats multipleDashboardsReport = [''pdf'']
   \<and> Formats multipleDashboardsCommand = []"
  using formats_never_copied [OF multipleDashboardsReport_command] multipleDashboardsReport_command
  by (simp add: multipleDashboardsReport_def)

text \<open>
  Claim C10. \<open>ReadReport\<close> indexes the zeroth entry of the dashboards of the fetched
  entity. If the report was fetched and this list is empty, the read panics with an index
  out of range and returns no diagnostics. If the read succeeds, the list is not empty, and
  \<^verbatim>\<open>dashboard_id\<close>, \<^verbatim>\<open>dashboard_uid\<close> and \<^verbatim>\<open>time_range\<close> are taken from its zeroth
  entry.
\<close>

theorem ReadReport_indexes_first_dashboard:
  "(ParseInt (snd (splitOrgResourceID cl (Id d))) = Some id' \<and> Reports_GetReport cl id' = Inr r
      \<and> CheckReadError cl None = None \<and> Dashboards r = [] \<longrightarrow>
        ReadReport cl p d = (Panic IndexOutOfRange, [GetReportCall id']))
   \<and> (ReadReport cl p d = (Ok (i, sets), calls) \<longrightarrow>
        (\<exists>id' r d0 rest db tr.
           Reports_GetReport cl id' = Inr r \<and> Dashboards r = Some d0 # rest
           \<and> Dashboard d0 = Some db \<and> TimeRange d0 = Some tr
           \<and> map_of sets ''dashboard_id'' = Some (AInt (ID db))
           \<and> map_of sets ''dashboard_uid'' = Some (AString (UID db))
           \<and> map_of sets ''time_range''
               = (if From tr \<noteq> []
                  then Some (ABlocks [[(''from'', AString (From tr)), (''to'', AString (To tr))]])
                  else None)))"
proof (intro conjI impI)
  assume "ParseInt (snd (splitOrgResourceID cl (Id d))) = Some id' \<and> Reports_GetReport cl id' = Inr r
      \<and> CheckReadError cl None = None \<and> Dashboards r = []"
  then show "ReadReport cl p d = (Panic IndexOutOfRange, [GetReportCall id'])"
    by (simp add: ReadReport_def readPayload_def)
next
  assume "ReadReport cl p d = (Ok (i, sets), calls)"
  from ReadReport_Ok [OF this] obtain id' r where get: "Reports_GetReport cl id' = Inr r"
    and rp: "readPayload cl p d id' r = Ok (i, sets)"
    by blast
  from readPayload_Ok [OF rp] get
  show "\<exists>id' r d0 rest db tr.
           Reports_GetReport cl id' = Inr r \<and> Dashboards r = Some d0 # rest
           \<and> Dashboard d0 = Some db \<and> TimeRange d0 = Some tr
           \<and> map_of sets ''dashboard_id'' = Some (AInt (ID db))
           \<and> map_of sets ''dashboard_uid'' = Some (AString (UID db))
           \<and> map_of sets ''time_range''
               = (if From tr \<noteq> []
                  then Some (ABlocks [[(''from'', AString (From tr)), (''to'', AString (To tr))]])
                  else None)"
    by blast
qed

theorem ReadReport_indexes_first_dashboard_witness:
  "ReadReport emptyDashboardsClient platform64 existingReport
     = (Panic IndexOutOfRange, [GetReportCall 7])
   \<and> (\<exists>i sets. ReadReport exampleClient platform64 existingReport
                  = (Ok (i, sets), [GetReportCall 7])
        \<and> map_of sets ''dashboard_id'' = Some (AInt 3)
        \<and> map_of sets ''dashboard_uid'' = Some (AString ''report'')
        \<and> map_of sets ''time_range''
            = Some (ABlocks [[(''from'', AString ''now-1h''), (''to'', AString ''now'')]]))"
proof -
  have id7: "ParseInt (snd (splitOrgResourceID emptyDashboardsClient (Id existingReport))) = Some 7"
    using existingReport_id by (simp add: emptyDashboardsClient_def exampleClient_def)
  have "ReadReport emptyDashboardsClient platform64 existingReport
          = (Panic IndexOutOfRange, [GetReportCall 7])"
    using ReadReport_indexes_first_dashboard
            [where cl = emptyDashboardsClient and d = existingReport and id' = 7
               and r = "storedReport\<lparr> Dashboards := [] \<rparr>" and p = platform64] id7
    by (simp add: emptyDashboardsClient_def exampleClient_def)
  moreover from existingReport_read obtain i sets
    where rd: "ReadReport exampleClient platform64 existingReport = (Ok (i, sets), [GetReportCall 7])"
    by blast
  from ReadReport_indexes_first_dashboard
         [where cl = exampleClient and d = existingReport and p = platform64 and i = i
            and sets = sets and calls = "[GetReportCall 7]"] rd
  have "map_of sets ''dashboard_id'' = Some (AInt 3)
        \<and> map_of sets ''dashboard_uid'' = Some (AString ''report'')
        \<and> map_of sets ''time_range''
            = Some (ABlocks [[(''from'', AString ''now-1h''), (''to'', AString ''now'')]])"
    by (auto simp: exampleClient_def storedReport_def)
  ultimately show ?thesis using rd by blast
qed

end
